theory Spec2Isabelle
  imports Complex_Main "HOL-Library.Sublist"
begin

section \<open>Strings of the host language\<close>

text \<open>
  A string of the host language is a sequence of 16-bit code units. The model holds the
  strings whose code units are below 256 (ISO 8859-1), one character per code unit, and gives
  the string primitives their behaviour on these: \<open>toLowerCase\<close> maps \<open>A\<close>..\<open>Z\<close> and the
  accented capitals \<open>0xC0\<close>..\<open>0xDE\<close> (without the multiplication sign \<open>0xD7\<close>) to the letter 32
  places further, and \<open>trim\<close> removes TAB, LF, VT, FF, CR, SPACE and the no-break space
  \<open>0xA0\<close> from both ends.
\<close>

definition upper_alpha :: "char \<Rightarrow> bool" where
  "upper_alpha c \<longleftrightarrow> 65 \<le> (of_char c :: nat) \<and> (of_char c :: nat) \<le> 90"

definition lower_alpha :: "char \<Rightarrow> bool" where
  "lower_alpha c \<longleftrightarrow> 97 \<le> (of_char c :: nat) \<and> (of_char c :: nat) \<le> 122"

definition ascii_digit :: "char \<Rightarrow> bool" where
  "ascii_digit c \<longleftrightarrow> 48 \<le> (of_char c :: nat) \<and> (of_char c :: nat) \<le> 57"

definition upper_accented :: "char \<Rightarrow> bool" where
  "upper_accented c \<longleftrightarrow>
     192 \<le> (of_char c :: nat) \<and> (of_char c :: nat) \<le> 222 \<and> (of_char c :: nat) \<noteq> 215"

definition lower_char :: "char \<Rightarrow> char" where
  "lower_char c =
     (if upper_alpha c \<or> upper_accented c
      then (case c of Char b0 b1 b2 b3 b4 b5 b6 b7 \<Rightarrow> Char b0 b1 b2 b3 b4 True b6 b7)
      else c)"

definition toLowerCase :: "string \<Rightarrow> string" where
  "toLowerCase s = map lower_char s"

definition js_space :: "char \<Rightarrow> bool" where
  "js_space c \<longleftrightarrow> c \<in> {CHR 0x09, CHR 0x0A, CHR 0x0B, CHR 0x0C, CHR 0x0D, CHR '' '', CHR 0xA0}"

definition trim :: "string \<Rightarrow> string" where
  "trim s = rev (dropWhile js_space (rev (dropWhile js_space s)))"

text \<open>\<open>haystack.includes(needle)\<close>: the needle occurs as a contiguous substring.\<close>

fun str_includes :: "string \<Rightarrow> string \<Rightarrow> bool" where
  "str_includes [] needle = (needle = [])"
| "str_includes (h # hs) needle = (prefix needle (h # hs) \<or> str_includes hs needle)"

text \<open>Decimal rendering of a number inside a template string.\<close>

definition digit_char :: "nat \<Rightarrow> char" where
  "digit_char d =
     (if d = 0 then CHR ''0'' else if d = 1 then CHR ''1'' else if d = 2 then CHR ''2''
      else if d = 3 then CHR ''3'' else if d = 4 then CHR ''4'' else if d = 5 then CHR ''5''
      else if d = 6 then CHR ''6'' else if d = 7 then CHR ''7'' else if d = 8 then CHR ''8''
      else CHR ''9'')"

fun show_nat :: "nat \<Rightarrow> string" where
  "show_nat n = (if n < 10 then [digit_char n] else show_nat (n div 10) @ [digit_char (n mod 10)])"

declare show_nat.simps [simp del]

definition show_int :: "int \<Rightarrow> string" where
  "show_int i = (if i < 0 then CHR ''-'' # show_nat (nat (- i)) else show_nat (nat i))"

section \<open>The platform's URL constructor\<close>

text \<open>
  \<open>new URL(s)\<close> is supplied by the platform, not by the repository. The functions that call
  it take it as a parameter of type \<open>url_ctor\<close>: \<open>None\<close> when the constructor throws,
  otherwise the three components the code reads.
\<close>

record url =
  protocol :: string
  hostname :: string
  pathname :: string

type_synonym url_ctor = "string \<Rightarrow> url option"

text \<open>
  For concrete runs, \<open>URL_model\<close> describes the constructor (WHATWG URL Standard) on two
  classes of input, and only there:
  \<^item> a string \<open>http://host path\<close> or \<open>https://host path\<close>, where \<open>host\<close> is a non-empty
    sequence of labels separated by single dots, each label made of lower-case letters and
    digits and starting with a letter, and \<open>path\<close> is empty or starts with \<open>/\<close> and consists
    of letters, digits, \<open>/\<close>, \<open>-\<close>, \<open>_\<close> and \<open>~\<close>: the constructor accepts it, the hostname is
    \<open>host\<close> unchanged, and the pathname is \<open>path\<close>, or \<open>/\<close> when \<open>path\<close> is empty;
  \<^item> a string with no colon: it has no scheme, so the constructor throws.
  On every other string \<open>URL_model\<close> answers \<open>None\<close>, which need not be what the platform
  does: the constructor accepts many more strings. No statement below runs \<open>URL_model\<close> on
  a string outside the two classes; statements about all strings take the constructor as a
  parameter.
\<close>

fun host_labels :: "bool \<Rightarrow> string \<Rightarrow> bool" where
  "host_labels at_start [] = (\<not> at_start)"
| "host_labels at_start (c # cs) =
     (if lower_alpha c then host_labels False cs
      else if ascii_digit c then \<not> at_start \<and> host_labels False cs
      else if c = CHR ''.'' then \<not> at_start \<and> host_labels True cs
      else False)"

definition path_char :: "char \<Rightarrow> bool" where
  "path_char c \<longleftrightarrow>
     lower_alpha c \<or> upper_alpha c \<or> ascii_digit c \<or> c \<in> {CHR ''/'', CHR ''-'', CHR ''_'', CHR ''~''}"

definition split_scheme :: "string \<Rightarrow> (string \<times> string) option" where
  "split_scheme s =
     (if prefix ''https://'' s then Some (''https:'', drop 8 s)
      else if prefix ''http://'' s then Some (''http:'', drop 7 s)
      else None)"

definition URL_model :: url_ctor where
  "URL_model s =
     (case split_scheme s of
        None \<Rightarrow> None
      | Some (proto, rest) \<Rightarrow>
          (let host = takeWhile (\<lambda>c. c \<noteq> CHR ''/'') rest;
               path = dropWhile (\<lambda>c. c \<noteq> CHR ''/'') rest
           in if host_labels True host \<and> list_all path_char path
              then Some \<lparr>protocol = proto, hostname = host,
                         pathname = (if path = [] then ''/'' else path)\<rparr>
              else None))"

section \<open>DeduplicationEngine: URL normalisation\<close>

text \<open>\<open>hostname.replace(/^www\\./, '')\<close> removes one leading \<open>www.\<close>.\<close>

definition strip_www :: "string \<Rightarrow> string" where
  "strip_www h = (if prefix ''www.'' h then drop 4 h else h)"

text \<open>\<open>s.replace(/\\/+$/, '')\<close> removes every slash at the end of the string.\<close>

definition strip_trailing_slashes :: "string \<Rightarrow> string" where
  "strip_trailing_slashes s = rev (dropWhile (\<lambda>c. c = CHR ''/'') (rev s))"

definition normalizeUrl :: "url_ctor \<Rightarrow> string \<Rightarrow> string" where
  "normalizeUrl URL u =
     (case URL u of
        Some urlObj \<Rightarrow>
          strip_trailing_slashes
            (protocol urlObj @ ''//'' @ strip_www (hostname urlObj) @ pathname urlObj)
      | None \<Rightarrow> trim (toLowerCase u))"

section \<open>Universal schema (universalDataNormalizer)\<close>

datatype BrowserType = FIREFOX | CHROME | EDGE | BRAVE | CHROMIUM

text \<open>
  A \<open>Date\<close> is its time value in milliseconds; \<open>None\<close> is the Invalid Date. Comparing
  two dates with \<open><\<close> or \<open>></\<close> compares the time values, and is false when either is invalid.
\<close>

type_synonym date = "int option"

definition date_gt :: "date \<Rightarrow> date \<Rightarrow> bool" where
  "date_gt a b = (case (a, b) of (Some x, Some y) \<Rightarrow> x > y | _ \<Rightarrow> False)"

definition date_lt :: "date \<Rightarrow> date \<Rightarrow> bool" where
  "date_lt a b = (case (a, b) of (Some x, Some y) \<Rightarrow> x < y | _ \<Rightarrow> False)"

record UniversalBookmark =
  ub_id :: string
  ub_title :: string
  ub_url :: string
  ub_folder :: "string list"
  ub_dateAdded :: date
  ub_dateModified :: "date option"
  ub_sourceProfile :: string
  ub_sourceBrowser :: BrowserType
  ub_tags :: "string list"
  ub_description :: "string option"
  ub_favicon :: "string option"
  ub_visitCount :: "int option"

record UniversalHistoryEntry =
  uh_id :: string
  uh_url :: string
  uh_title :: string
  uh_visitCount :: int
  uh_lastVisit :: date
  uh_firstVisit :: date
  uh_sourceProfile :: string
  uh_sourceBrowser :: BrowserType
  uh_duration :: "int option"
  uh_referrer :: "string option"
  uh_searchTerm :: "string option"

record UniversalLogin =
  ul_id :: string
  ul_url :: string
  ul_domain :: string
  ul_username :: string
  ul_passwordHash :: string
  ul_dateCreated :: date
  ul_dateLastUsed :: date
  ul_datePasswordChanged :: "date option"
  ul_sourceProfile :: string
  ul_sourceBrowser :: BrowserType
  ul_formSubmitUrl :: "string option"
  ul_usernameField :: "string option"
  ul_passwordField :: "string option"
  ul_timesUsed :: int

text \<open>The three arrays of a \<open>NormalizedDataSet\<close> that the deduplication engine reads.\<close>

record NormalizedDataSet =
  ds_bookmarks :: "UniversalBookmark list"
  ds_history :: "UniversalHistoryEntry list"
  ds_logins :: "UniversalLogin list"

section \<open>DeduplicationEngine\<close>

datatype item = BookmarkItem UniversalBookmark | HistoryItem UniversalHistoryEntry | LoginItem UniversalLogin

record DuplicateGroup =
  dg_id :: string
  dg_type :: string
  dg_items :: "item list"
  dg_confidence :: rat
  dg_reason :: string
  dg_suggestedKeep :: "item option"

record DeduplicationConfig =
  bookmarkStrategy :: string
  historyStrategy :: string
  loginStrategy :: string
  urlSimilarityThreshold :: rat
  titleSimilarityThreshold :: rat
  autoApproveHighConfidence :: bool
  previewAllChanges :: bool

record DeduplicationResult =
  duplicateGroups :: "DuplicateGroup list"
  potentialMerges :: int
  estimatedReduction :: int
  requiresUserReview :: nat

subsection \<open>Levenshtein distance\<close>

text \<open>
  The source fills a matrix with one row per character of \<open>str2\<close> and one column per
  character of \<open>str1\<close>; row 0 is \<open>0, 1, .., |str1|\<close> and column 0 of row \<open>j\<close> is \<open>j\<close>.
  \<open>lev_row c str1 prev left\<close> computes the cells of one row after column 0: \<open>prev\<close> is the
  row above, starting at the cell diagonally up-left, and \<open>left\<close> the cell to the left.
\<close>

fun lev_row :: "char \<Rightarrow> string \<Rightarrow> nat list \<Rightarrow> nat \<Rightarrow> nat list" where
  "lev_row c (x # xs) (diag # up # prev) left =
     (let indicator = (if x = c then 0 else 1);
          cell = min (left + 1) (min (up + 1) (diag + indicator))
      in cell # lev_row c xs (up # prev) cell)"
| "lev_row c _ _ left = []"

fun lev_rows :: "string \<Rightarrow> string \<Rightarrow> nat \<Rightarrow> nat list \<Rightarrow> nat list" where
  "lev_rows str1 [] j row = row"
| "lev_rows str1 (c # cs) j row = lev_rows str1 cs (j + 1) (j # lev_row c str1 row j)"

definition levenshteinDistance :: "string \<Rightarrow> string \<Rightarrow> nat" where
  "levenshteinDistance str1 str2 = last (lev_rows str1 str2 1 [0 ..< length str1 + 1])"

subsection \<open>Similarity\<close>

definition calculateStringSimilarity :: "string \<Rightarrow> string \<Rightarrow> rat" where
  "calculateStringSimilarity str1 str2 =
     (if str1 = str2 then 1
      else
        let longer = (if length str1 > length str2 then str1 else str2);
            shorter = (if length str1 > length str2 then str2 else str1)
        in if length longer = 0 then 1
           else
             let distance = levenshteinDistance (toLowerCase longer) (toLowerCase shorter)
             in (of_nat (length longer) - of_nat distance) / of_nat (length longer))"

definition calculateUrlSimilarity :: "url_ctor \<Rightarrow> string \<Rightarrow> string \<Rightarrow> rat" where
  "calculateUrlSimilarity URL url1 url2 =
     (if url1 = url2 then 1
      else
        let norm1 = normalizeUrl URL url1;
            norm2 = normalizeUrl URL url2
        in if norm1 = norm2 then 95 / 100
           else if str_includes norm1 norm2 \<or> str_includes norm2 norm1 then 8 / 10
           else calculateStringSimilarity norm1 norm2)"

text \<open>The pair is \<open>(url, title)\<close>.\<close>

definition calculateBookmarkSimilarity ::
  "url_ctor \<Rightarrow> UniversalBookmark \<Rightarrow> UniversalBookmark \<Rightarrow> rat \<times> rat" where
  "calculateBookmarkSimilarity URL bookmark1 bookmark2 =
     (calculateUrlSimilarity URL (ub_url bookmark1) (ub_url bookmark2),
      calculateStringSimilarity (ub_title bookmark1) (ub_title bookmark2))"

subsection \<open>Which member to keep\<close>

text \<open>
  \<open>xs.reduce(f)\<close> without an initial value starts from the first element and throws on an
  empty array (\<open>None\<close>).
\<close>

definition reduce1 :: "('a \<Rightarrow> 'a \<Rightarrow> 'a) \<Rightarrow> 'a list \<Rightarrow> 'a option" where
  "reduce1 f xs = (case xs of [] \<Rightarrow> None | x # rest \<Rightarrow> Some (fold (\<lambda>current acc. f acc current) rest x))"

definition or_zero :: "int option \<Rightarrow> int" where
  "or_zero v = (case v of None \<Rightarrow> 0 | Some n \<Rightarrow> n)"

definition suggestBookmarkToKeep :: "UniversalBookmark list \<Rightarrow> string \<Rightarrow> UniversalBookmark option" where
  "suggestBookmarkToKeep bookmarks strategy =
     (if strategy = ''keep_newest'' then
        reduce1 (\<lambda>newest current. if date_gt (ub_dateAdded current) (ub_dateAdded newest) then current else newest) bookmarks
      else if strategy = ''keep_oldest'' then
        reduce1 (\<lambda>oldest current. if date_lt (ub_dateAdded current) (ub_dateAdded oldest) then current else oldest) bookmarks
      else if strategy = ''keep_most_used'' then
        reduce1 (\<lambda>mostUsed current.
          if or_zero (ub_visitCount current) > or_zero (ub_visitCount mostUsed) then current else mostUsed) bookmarks
      else (case bookmarks of [] \<Rightarrow> None | b # _ \<Rightarrow> Some b))"

definition suggestHistoryToKeep :: "UniversalHistoryEntry list \<Rightarrow> string \<Rightarrow> UniversalHistoryEntry option" where
  "suggestHistoryToKeep entries strategy =
     (if strategy = ''keep_newest'' then
        reduce1 (\<lambda>newest current. if date_gt (uh_lastVisit current) (uh_lastVisit newest) then current else newest) entries
      else if strategy = ''keep_most_visits'' then
        reduce1 (\<lambda>mostVisits current. if uh_visitCount current > uh_visitCount mostVisits then current else mostVisits) entries
      else if strategy = ''merge_visits'' then
        reduce1 (\<lambda>mostVisits current. if uh_visitCount current > uh_visitCount mostVisits then current else mostVisits) entries
      else (case entries of [] \<Rightarrow> None | e # _ \<Rightarrow> Some e))"

definition suggestLoginToKeep :: "UniversalLogin list \<Rightarrow> string \<Rightarrow> UniversalLogin option" where
  "suggestLoginToKeep logins strategy =
     (if strategy = ''keep_newest'' then
        reduce1 (\<lambda>newest current. if date_gt (ul_dateLastUsed current) (ul_dateLastUsed newest) then current else newest) logins
      else if strategy = ''keep_most_used'' then
        reduce1 (\<lambda>mostUsed current. if ul_timesUsed current > ul_timesUsed mostUsed then current else mostUsed) logins
      else (case logins of [] \<Rightarrow> None | l # _ \<Rightarrow> Some l))"

text \<open>
  \<open>calculateGroupConfidence\<close> and \<open>generateDuplicateReason\<close> are only called with the type
  \<open>'bookmark'\<close>; these are their instances at that type.
\<close>

definition calculateGroupConfidence_bookmark :: "url_ctor \<Rightarrow> UniversalBookmark list \<Rightarrow> rat" where
  "calculateGroupConfidence_bookmark URL items =
     (case items of
        [a, b] \<Rightarrow> (let similarity = calculateBookmarkSimilarity URL a b in max (fst similarity) (snd similarity))
      | _ \<Rightarrow> 8 / 10)"

definition generateDuplicateReason_bookmark :: "UniversalBookmark list \<Rightarrow> string" where
  "generateDuplicateReason_bookmark items = show_nat (length items) @ '' bookmarks with similar URLs and titles''"

subsection \<open>Finding duplicate groups\<close>

text \<open>
  The loops \<open>for i\<close> / \<open>for j = i + 1\<close> are recursions over the remaining suffix of the array;
  \<open>processed\<close> is the set of ids already placed.
\<close>

fun bookmark_scan ::
  "url_ctor \<Rightarrow> DeduplicationConfig \<Rightarrow> UniversalBookmark \<Rightarrow> UniversalBookmark list \<Rightarrow>
   UniversalBookmark list \<times> string set \<Rightarrow> UniversalBookmark list \<times> string set" where
  "bookmark_scan URL config bookmark [] (duplicates, processed) = (duplicates, processed)"
| "bookmark_scan URL config bookmark (other # rest) (duplicates, processed) =
     (if ub_id other \<in> processed then bookmark_scan URL config bookmark rest (duplicates, processed)
      else
        let similarity = calculateBookmarkSimilarity URL bookmark other
        in if fst similarity \<ge> urlSimilarityThreshold config \<or>
              (snd similarity \<ge> titleSimilarityThreshold config \<and> fst similarity > 7 / 10)
           then bookmark_scan URL config bookmark rest (duplicates @ [other], insert (ub_id other) processed)
           else bookmark_scan URL config bookmark rest (duplicates, processed))"

fun bookmark_groups ::
  "url_ctor \<Rightarrow> DeduplicationConfig \<Rightarrow> UniversalBookmark list \<Rightarrow> string set \<Rightarrow>
   DuplicateGroup list \<Rightarrow> DuplicateGroup list" where
  "bookmark_groups URL config [] processed groups = groups"
| "bookmark_groups URL config (bookmark # rest) processed groups =
     (if ub_id bookmark \<in> processed then bookmark_groups URL config rest processed groups
      else
        case bookmark_scan URL config bookmark rest ([bookmark], insert (ub_id bookmark) processed) of
          (duplicates, processed') \<Rightarrow>
            if length duplicates > 1 then
              bookmark_groups URL config rest processed'
                (groups @
                 [\<lparr>dg_id = ''bookmark_dup_'' @ show_nat (length groups),
                   dg_type = ''bookmark'',
                   dg_items = map BookmarkItem duplicates,
                   dg_confidence = calculateGroupConfidence_bookmark URL duplicates,
                   dg_reason = generateDuplicateReason_bookmark duplicates,
                   dg_suggestedKeep = map_option BookmarkItem (suggestBookmarkToKeep duplicates (bookmarkStrategy config))\<rparr>])
            else bookmark_groups URL config rest processed' groups)"

definition findBookmarkDuplicates ::
  "url_ctor \<Rightarrow> UniversalBookmark list \<Rightarrow> DeduplicationConfig \<Rightarrow> DuplicateGroup list" where
  "findBookmarkDuplicates URL bookmarks config = bookmark_groups URL config bookmarks {} []"

text \<open>
  A \<open>Map\<close> keeps its keys in insertion order: an association list, where setting a new key
  appends it.
\<close>

fun map_set :: "'k \<Rightarrow> 'v \<Rightarrow> ('k \<times> 'v) list \<Rightarrow> ('k \<times> 'v) list" where
  "map_set k v [] = [(k, v)]"
| "map_set k v ((k', v') # m) = (if k' = k then (k, v) # m else (k', v') # map_set k v m)"

fun history_urlGroups ::
  "url_ctor \<Rightarrow> UniversalHistoryEntry list \<Rightarrow> (string \<times> UniversalHistoryEntry list) list \<Rightarrow>
   (string \<times> UniversalHistoryEntry list) list" where
  "history_urlGroups URL [] urlGroups = urlGroups"
| "history_urlGroups URL (entry # rest) urlGroups =
     (let normalized = normalizeUrl URL (uh_url entry);
          urlGroups1 = (if map_of urlGroups normalized = None then map_set normalized [] urlGroups else urlGroups);
          entries = (case map_of urlGroups1 normalized of None \<Rightarrow> [] | Some es \<Rightarrow> es)
      in history_urlGroups URL rest (map_set normalized (entries @ [entry]) urlGroups1))"

fun history_groups ::
  "DeduplicationConfig \<Rightarrow> (string \<times> UniversalHistoryEntry list) list \<Rightarrow> DuplicateGroup list \<Rightarrow> DuplicateGroup list" where
  "history_groups config [] groups = groups"
| "history_groups config ((key, entries) # rest) groups =
     (if length entries > 1 then
        history_groups config rest
          (groups @
           [\<lparr>dg_id = ''history_dup_'' @ show_nat (length groups),
             dg_type = ''history'',
             dg_items = map HistoryItem entries,
             dg_confidence = 1,
             dg_reason = ''Identical URLs with '' @ show_nat (length entries) @ '' visits across browsers'',
             dg_suggestedKeep = map_option HistoryItem (suggestHistoryToKeep entries (historyStrategy config))\<rparr>])
      else history_groups config rest groups)"

definition findHistoryDuplicates ::
  "url_ctor \<Rightarrow> UniversalHistoryEntry list \<Rightarrow> DeduplicationConfig \<Rightarrow> DuplicateGroup list" where
  "findHistoryDuplicates URL history config = history_groups config (history_urlGroups URL history []) []"

fun login_scan ::
  "UniversalLogin \<Rightarrow> UniversalLogin list \<Rightarrow> UniversalLogin list \<times> string set \<Rightarrow>
   UniversalLogin list \<times> string set" where
  "login_scan login [] (duplicates, processed) = (duplicates, processed)"
| "login_scan login (other # rest) (duplicates, processed) =
     (if ul_id other \<in> processed then login_scan login rest (duplicates, processed)
      else if ul_domain login = ul_domain other \<and> ul_username login = ul_username other
           then login_scan login rest (duplicates @ [other], insert (ul_id other) processed)
           else login_scan login rest (duplicates, processed))"

fun login_groups ::
  "DeduplicationConfig \<Rightarrow> UniversalLogin list \<Rightarrow> string set \<Rightarrow> DuplicateGroup list \<Rightarrow> DuplicateGroup list" where
  "login_groups config [] processed groups = groups"
| "login_groups config (login # rest) processed groups =
     (if ul_id login \<in> processed then login_groups config rest processed groups
      else
        case login_scan login rest ([login], insert (ul_id login) processed) of
          (duplicates, processed') \<Rightarrow>
            if length duplicates > 1 then
              login_groups config rest processed'
                (groups @
                 [\<lparr>dg_id = ''login_dup_'' @ show_nat (length groups),
                   dg_type = ''login'',
                   dg_items = map LoginItem duplicates,
                   dg_confidence = 95 / 100,
                   dg_reason = ''Same domain ('' @ ul_domain login @ '') and username ('' @ ul_username login @ '')'',
                   dg_suggestedKeep = map_option LoginItem (suggestLoginToKeep duplicates (loginStrategy config))\<rparr>])
            else login_groups config rest processed' groups)"

definition findLoginDuplicates :: "UniversalLogin list \<Rightarrow> DeduplicationConfig \<Rightarrow> DuplicateGroup list" where
  "findLoginDuplicates logins config = login_groups config logins {} []"

subsection \<open>analyzeDataset\<close>

definition analyzeDataset :: "url_ctor \<Rightarrow> NormalizedDataSet \<Rightarrow> DeduplicationConfig \<Rightarrow> DeduplicationResult" where
  "analyzeDataset URL dataset config =
     (let bookmarkDuplicates = findBookmarkDuplicates URL (ds_bookmarks dataset) config;
          historyDuplicates = findHistoryDuplicates URL (ds_history dataset) config;
          loginDuplicates = findLoginDuplicates (ds_logins dataset) config;
          groups = bookmarkDuplicates @ historyDuplicates @ loginDuplicates;
          merges = fold (\<lambda>group sum. sum + int (length (dg_items group)) - 1) groups 0;
          review = length (filter (\<lambda>group. dg_confidence group < 9 / 10 \<or> \<not> autoApproveHighConfidence config) groups)
      in \<lparr>duplicateGroups = groups,
          potentialMerges = merges,
          estimatedReduction = merges,
          requiresUserReview = review\<rparr>)"

section \<open>Extraction results (realDataExtraction)\<close>

text \<open>
  The records that \<open>RealDataExtractor\<close> puts into the arrays of a \<open>RealExtractionResult\<close>,
  with the \<open>mergedFrom\<close> field that the merge engine adds.
\<close>

record bookmark =
  bm_id :: string
  bm_title :: string
  bm_url :: string
  bm_dateAdded :: date
  bm_lastModified :: date
  bm_visitCount :: int
  bm_folder :: string
  bm_source :: string
  bm_browserType :: BrowserType
  bm_mergedFrom :: "string option"

record history_entry =
  he_id :: string
  he_url :: string
  he_title :: string
  he_visitCount :: int
  he_lastVisitTime :: date
  he_typedCount :: int
  he_source :: string
  he_browserType :: BrowserType
  he_mergedFrom :: "string option"

record login =
  lg_id :: string
  lg_hostname :: string
  lg_username :: string
  lg_password :: string
  lg_formSubmitURL :: string
  lg_timeCreated :: date
  lg_timeLastUsed :: date
  lg_timesUsed :: int
  lg_source :: string
  lg_browserType :: BrowserType
  lg_mergedFrom :: "string option"

text \<open>The five arrays that no merge reads or writes are kept as opaque texts.\<close>

record RealExtractionResult =
  bookmarks :: "bookmark list"
  history :: "history_entry list"
  logins :: "login list"
  cookies :: "string list"
  extensions :: "string list"
  formHistory :: "string list"
  permissions :: "string list"
  sessions :: "string list"
  totalItems :: nat
  extractionTime :: int
  extraction_errors :: "string list"

section \<open>EnhancedMergeEngine\<close>

datatype ConflictResolution = KEEP_NEWEST | KEEP_OLDEST | MANUAL | KEEP_ALL | CUSTOM

datatype MergeDataType =
  BOOKMARKS | HISTORY | PASSWORDS | COOKIES | EXTENSIONS | PREFERENCES | FORM_HISTORY |
  PERMISSIONS | SESSIONS | ALL'

text \<open>The fields of \<open>MergeConfig\<close> that the engine reads.\<close>

record MergeConfig =
  mergeTypes :: "MergeDataType list"
  conflictResolution :: ConflictResolution
  dryRun :: bool

record counts =
  n_merged :: nat
  n_conflicts :: nat

record MergeDetails =
  d_bookmarks :: counts
  d_history :: counts
  d_logins :: counts
  d_cookies :: counts
  d_extensions :: counts
  d_formHistory :: counts
  d_permissions :: counts
  d_sessions :: counts

record MergeResult =
  success :: bool
  mergedItems :: nat
  conflictsResolved :: nat
  errors :: "string list"
  details :: MergeDetails
  executionTime :: int

text \<open>
  \<open>sourceData\<close> is a \<open>Map\<close> from profile path to extraction result, in insertion order. The
  target dataset is the object stored under the target path, so the engine's writes to
  \<open>targetData\<close> are writes to that entry of the map: the state of a merge is the whole map,
  and \<open>targetData\<close> is the key under which it is found. The other entries are taken to be
  separate objects.
\<close>

type_synonym store = "(string \<times> RealExtractionResult) list"

fun store_put :: "string \<Rightarrow> RealExtractionResult \<Rightarrow> store \<Rightarrow> store" where
  "store_put k d [] = []"
| "store_put k d ((k', d') # st) = (if k' = k then (k, d) # st else (k', d') # store_put k d st)"

text \<open>
  \<open>xs.find(p)\<close> returns the first element satisfying \<open>p\<close>, and \<open>xs.indexOf\<close> of that object
  its position: \<open>find_index\<close> gives the position of the first match.
\<close>

fun find_index :: "('a \<Rightarrow> bool) \<Rightarrow> 'a list \<Rightarrow> nat option" where
  "find_index p [] = None"
| "find_index p (x # xs) = (if p x then Some 0 else map_option Suc (find_index p xs))"

text \<open>
  Every per-type merge skips a source when \<open>profilePath === targetData.toString()\<close>.
  \<open>targetData\<close> is a plain object, whose \<open>toString()\<close> is the text below.
\<close>

definition targetData_toString :: string where
  "targetData_toString = ''[object Object]''"

subsection \<open>Conflict resolution\<close>

text \<open>
  The enumeration \<open>ConflictResolution\<close> has no member \<open>KEEP_MOST_USED\<close>, so the branch
  \<open>case ConflictResolution.KEEP_MOST_USED\<close> of the source matches no strategy.
\<close>

fun shouldReplaceBookmark :: "bookmark \<Rightarrow> bookmark \<Rightarrow> ConflictResolution \<Rightarrow> bool" where
  "shouldReplaceBookmark existing incoming KEEP_NEWEST = date_gt (bm_lastModified incoming) (bm_lastModified existing)"
| "shouldReplaceBookmark existing incoming KEEP_OLDEST = date_lt (bm_dateAdded incoming) (bm_dateAdded existing)"
| "shouldReplaceBookmark existing incoming MANUAL = False"
| "shouldReplaceBookmark existing incoming _ = False"

fun shouldReplaceLogin :: "login \<Rightarrow> login \<Rightarrow> ConflictResolution \<Rightarrow> bool" where
  "shouldReplaceLogin existing incoming KEEP_NEWEST = date_gt (lg_timeLastUsed incoming) (lg_timeLastUsed existing)"
| "shouldReplaceLogin existing incoming KEEP_OLDEST = date_lt (lg_timeCreated incoming) (lg_timeCreated existing)"
| "shouldReplaceLogin existing incoming MANUAL = False"
| "shouldReplaceLogin existing incoming _ = False"

subsection \<open>Bookmarks\<close>

text \<open>The body of the loop over one source's bookmarks, for one incoming bookmark.\<close>

definition bookmark_step ::
  "MergeConfig \<Rightarrow> string \<Rightarrow> bookmark \<Rightarrow> RealExtractionResult \<times> nat \<times> nat \<Rightarrow>
   RealExtractionResult \<times> nat \<times> nat" where
  "bookmark_step config profilePath incoming s =
     (case s of (targetData, merged, conflicts) \<Rightarrow>
        (case find_index (\<lambda>b. bm_url b = bm_url incoming) (bookmarks targetData) of
           Some index \<Rightarrow>
             (let existingBookmark = bookmarks targetData ! index in
              if shouldReplaceBookmark existingBookmark incoming (conflictResolution config)
              then ((if \<not> dryRun config
                     then targetData\<lparr>bookmarks :=
                            (bookmarks targetData)[index := incoming\<lparr>bm_mergedFrom := Some profilePath\<rparr>]\<rparr>
                     else targetData),
                    merged + 1, conflicts + 1)
              else (targetData, merged, conflicts + 1))
         | None \<Rightarrow>
             ((if \<not> dryRun config
               then targetData\<lparr>bookmarks :=
                      bookmarks targetData @ [incoming\<lparr>bm_mergedFrom := Some profilePath\<rparr>]\<rparr>
               else targetData),
              merged + 1, conflicts)))"

text \<open>
  \<open>for (const bookmark of data.bookmarks)\<close> reads the array by index and tests the index
  against the current length at every step; \<open>data\<close> is the entry of the map under
  \<open>profilePath\<close>, which is the target itself when \<open>profilePath\<close> is the target's path.
\<close>

function bookmarks_loop ::
  "MergeConfig \<Rightarrow> string \<Rightarrow> string \<Rightarrow> nat \<Rightarrow> store \<times> nat \<times> nat \<Rightarrow> store \<times> nat \<times> nat" where
  "bookmarks_loop config target profilePath i (st, merged, conflicts) =
     (case map_of st profilePath of
        None \<Rightarrow> (st, merged, conflicts)
      | Some data \<Rightarrow>
          (case map_of st target of
             None \<Rightarrow> (st, merged, conflicts)
           | Some targetData \<Rightarrow>
               if i < length (bookmarks data)
               then (case bookmark_step config profilePath (bookmarks data ! i) (targetData, merged, conflicts) of
                       (targetData', merged', conflicts') \<Rightarrow>
                         bookmarks_loop config target profilePath (i + 1)
                           (store_put target targetData' st, merged', conflicts'))
               else (st, merged, conflicts)))"
  by pat_completeness auto
termination bookmarks_loop
proof (relation "measure (\<lambda>(config, target, profilePath, i, (st, merged, conflicts)).
          case map_of st profilePath of None \<Rightarrow> 0 | Some data \<Rightarrow> length (bookmarks data) - i)", goal_cases)
  case 1 show ?case by simp
next
  case (2 config target profilePath i st merged conflicts data targetData targetData' rest merged' conflicts')
  have put: "map_of (store_put k d s) k' = (if k' = k \<and> map_of s k \<noteq> None then Some d else map_of s k')"
    for k d s k' by (induction s) auto
  have mem: "x \<in> set xs \<Longrightarrow> p x \<Longrightarrow> find_index p xs \<noteq> None"
    for p :: "bookmark \<Rightarrow> bool" and x xs by (induction xs) auto
  show ?case
  proof (cases "profilePath = target")
    case False
    with 2 show ?thesis by (simp add: put)
  next
    case True
    with 2 have d: "data = targetData" by simp
    have "find_index (\<lambda>b. bm_url b = bm_url (bookmarks data ! i)) (bookmarks targetData) \<noteq> None"
      using 2 d by (intro mem[of "bookmarks data ! i"]) auto
    then have "length (bookmarks targetData') = length (bookmarks targetData)"
      using 2(4) by (auto simp: bookmark_step_def Let_def split: option.splits if_splits)
    with 2 True d show ?thesis by (simp add: put)
  qed
qed

declare bookmarks_loop.simps [simp del]

text \<open>The loop over the entries of the map, in insertion order.\<close>

fun mergeBookmarks_sources ::
  "MergeConfig \<Rightarrow> string \<Rightarrow> string list \<Rightarrow> store \<times> nat \<times> nat \<Rightarrow> store \<times> nat \<times> nat" where
  "mergeBookmarks_sources config target [] s = s"
| "mergeBookmarks_sources config target (profilePath # rest) (st, merged, conflicts) =
     (case map_of st profilePath of
        None \<Rightarrow> mergeBookmarks_sources config target rest (st, merged, conflicts)
      | Some data \<Rightarrow>
          if profilePath = targetData_toString \<or> length (bookmarks data) = 0
          then mergeBookmarks_sources config target rest (st, merged, conflicts)
          else mergeBookmarks_sources config target rest
                 (bookmarks_loop config target profilePath 0 (st, merged, conflicts)))"

definition mergeBookmarks :: "store \<Rightarrow> string \<Rightarrow> MergeConfig \<Rightarrow> MergeResult \<Rightarrow> store \<times> MergeResult" where
  "mergeBookmarks sourceData target config result =
     (case mergeBookmarks_sources config target (map fst sourceData) (sourceData, 0, 0) of
        (st, merged, conflicts) \<Rightarrow>
          (st, result\<lparr>details := (details result)\<lparr>d_bookmarks := \<lparr>n_merged = merged, n_conflicts = conflicts\<rparr>\<rparr>\<rparr>))"

subsection \<open>History\<close>

definition history_step ::
  "MergeConfig \<Rightarrow> string \<Rightarrow> history_entry \<Rightarrow> RealExtractionResult \<times> nat \<times> nat \<Rightarrow>
   RealExtractionResult \<times> nat \<times> nat" where
  "history_step config profilePath incoming s =
     (case s of (targetData, merged, conflicts) \<Rightarrow>
        (case find_index (\<lambda>h. he_url h = he_url incoming) (history targetData) of
           Some index \<Rightarrow>
             (let existingEntry = history targetData ! index;
                  summed = existingEntry\<lparr>he_visitCount := he_visitCount existingEntry + he_visitCount incoming\<rparr>;
                  updated = (if date_gt (he_lastVisitTime incoming) (he_lastVisitTime summed)
                             then summed\<lparr>he_lastVisitTime := he_lastVisitTime incoming\<rparr>
                             else summed)
              in ((if \<not> dryRun config
                   then targetData\<lparr>history := (history targetData)[index := updated]\<rparr>
                   else targetData),
                  merged + 1, conflicts + 1))
         | None \<Rightarrow>
             ((if \<not> dryRun config
               then targetData\<lparr>history :=
                      history targetData @ [incoming\<lparr>he_mergedFrom := Some profilePath\<rparr>]\<rparr>
               else targetData),
              merged + 1, conflicts)))"

function history_loop ::
  "MergeConfig \<Rightarrow> string \<Rightarrow> string \<Rightarrow> nat \<Rightarrow> store \<times> nat \<times> nat \<Rightarrow> store \<times> nat \<times> nat" where
  "history_loop config target profilePath i (st, merged, conflicts) =
     (case map_of st profilePath of
        None \<Rightarrow> (st, merged, conflicts)
      | Some data \<Rightarrow>
          (case map_of st target of
             None \<Rightarrow> (st, merged, conflicts)
           | Some targetData \<Rightarrow>
               if i < length (history data)
               then (case history_step config profilePath (history data ! i) (targetData, merged, conflicts) of
                       (targetData', merged', conflicts') \<Rightarrow>
                         history_loop config target profilePath (i + 1)
                           (store_put target targetData' st, merged', conflicts'))
               else (st, merged, conflicts)))"
  by pat_completeness auto
termination history_loop
proof (relation "measure (\<lambda>(config, target, profilePath, i, (st, merged, conflicts)).
          case map_of st profilePath of None \<Rightarrow> 0 | Some data \<Rightarrow> length (history data) - i)", goal_cases)
  case 1 show ?case by simp
next
  case (2 config target profilePath i st merged conflicts data targetData targetData' rest merged' conflicts')
  have put: "map_of (store_put k d s) k' = (if k' = k \<and> map_of s k \<noteq> None then Some d else map_of s k')"
    for k d s k' by (induction s) auto
  have mem: "x \<in> set xs \<Longrightarrow> p x \<Longrightarrow> find_index p xs \<noteq> None"
    for p :: "history_entry \<Rightarrow> bool" and x xs by (induction xs) auto
  show ?case
  proof (cases "profilePath = target")
    case False
    with 2 show ?thesis by (simp add: put)
  next
    case True
    with 2 have d: "data = targetData" by simp
    have "find_index (\<lambda>h. he_url h = he_url (history data ! i)) (history targetData) \<noteq> None"
      using 2 d by (intro mem[of "history data ! i"]) auto
    then have "length (history targetData') = length (history targetData)"
      using 2(4) by (auto simp: history_step_def Let_def split: option.splits if_splits)
    with 2 True d show ?thesis by (simp add: put)
  qed
qed

declare history_loop.simps [simp del]

fun mergeHistory_sources ::
  "MergeConfig \<Rightarrow> string \<Rightarrow> string list \<Rightarrow> store \<times> nat \<times> nat \<Rightarrow> store \<times> nat \<times> nat" where
  "mergeHistory_sources config target [] s = s"
| "mergeHistory_sources config target (profilePath # rest) (st, merged, conflicts) =
     (case map_of st profilePath of
        None \<Rightarrow> mergeHistory_sources config target rest (st, merged, conflicts)
      | Some data \<Rightarrow>
          if profilePath = targetData_toString \<or> length (history data) = 0
          then mergeHistory_sources config target rest (st, merged, conflicts)
          else mergeHistory_sources config target rest
                 (history_loop config target profilePath 0 (st, merged, conflicts)))"

definition mergeHistory :: "store \<Rightarrow> string \<Rightarrow> MergeConfig \<Rightarrow> MergeResult \<Rightarrow> store \<times> MergeResult" where
  "mergeHistory sourceData target config result =
     (case mergeHistory_sources config target (map fst sourceData) (sourceData, 0, 0) of
        (st, merged, conflicts) \<Rightarrow>
          (st, result\<lparr>details := (details result)\<lparr>d_history := \<lparr>n_merged = merged, n_conflicts = conflicts\<rparr>\<rparr>\<rparr>))"

subsection \<open>Logins\<close>

definition login_step ::
  "MergeConfig \<Rightarrow> string \<Rightarrow> login \<Rightarrow> RealExtractionResult \<times> nat \<times> nat \<Rightarrow>
   RealExtractionResult \<times> nat \<times> nat" where
  "login_step config profilePath incoming s =
     (case s of (targetData, merged, conflicts) \<Rightarrow>
        (case find_index (\<lambda>l. lg_hostname l = lg_hostname incoming \<and> lg_username l = lg_username incoming)
                (logins targetData) of
           Some index \<Rightarrow>
             (let existingLogin = logins targetData ! index in
              if shouldReplaceLogin existingLogin incoming (conflictResolution config)
              then ((if \<not> dryRun config
                     then targetData\<lparr>logins :=
                            (logins targetData)[index := incoming\<lparr>lg_mergedFrom := Some profilePath\<rparr>]\<rparr>
                     else targetData),
                    merged + 1, conflicts + 1)
              else (targetData, merged, conflicts + 1))
         | None \<Rightarrow>
             ((if \<not> dryRun config
               then targetData\<lparr>logins :=
                      logins targetData @ [incoming\<lparr>lg_mergedFrom := Some profilePath\<rparr>]\<rparr>
               else targetData),
              merged + 1, conflicts)))"

function logins_loop ::
  "MergeConfig \<Rightarrow> string \<Rightarrow> string \<Rightarrow> nat \<Rightarrow> store \<times> nat \<times> nat \<Rightarrow> store \<times> nat \<times> nat" where
  "logins_loop config target profilePath i (st, merged, conflicts) =
     (case map_of st profilePath of
        None \<Rightarrow> (st, merged, conflicts)
      | Some data \<Rightarrow>
          (case map_of st target of
             None \<Rightarrow> (st, merged, conflicts)
           | Some targetData \<Rightarrow>
               if i < length (logins data)
               then (case login_step config profilePath (logins data ! i) (targetData, merged, conflicts) of
                       (targetData', merged', conflicts') \<Rightarrow>
                         logins_loop config target profilePath (i + 1)
                           (store_put target targetData' st, merged', conflicts'))
               else (st, merged, conflicts)))"
  by pat_completeness auto
termination logins_loop
proof (relation "measure (\<lambda>(config, target, profilePath, i, (st, merged, conflicts)).
          case map_of st profilePath of None \<Rightarrow> 0 | Some data \<Rightarrow> length (logins data) - i)", goal_cases)
  case 1 show ?case by simp
next
  case (2 config target profilePath i st merged conflicts data targetData targetData' rest merged' conflicts')
  have put: "map_of (store_put k d s) k' = (if k' = k \<and> map_of s k \<noteq> None then Some d else map_of s k')"
    for k d s k' by (induction s) auto
  have mem: "x \<in> set xs \<Longrightarrow> p x \<Longrightarrow> find_index p xs \<noteq> None"
    for p :: "login \<Rightarrow> bool" and x xs by (induction xs) auto
  show ?case
  proof (cases "profilePath = target")
    case False
    with 2 show ?thesis by (simp add: put)
  next
    case True
    with 2 have d: "data = targetData" by simp
    have "find_index (\<lambda>l. lg_hostname l = lg_hostname (logins data ! i) \<and> lg_username l = lg_username (logins data ! i))
            (logins targetData) \<noteq> None"
      using 2 d by (intro mem[of "logins data ! i"]) auto
    then have "length (logins targetData') = length (logins targetData)"
      using 2(4) by (auto simp: login_step_def Let_def split: option.splits if_splits)
    with 2 True d show ?thesis by (simp add: put)
  qed
qed

declare logins_loop.simps [simp del]

fun mergeLogins_sources ::
  "MergeConfig \<Rightarrow> string \<Rightarrow> string list \<Rightarrow> store \<times> nat \<times> nat \<Rightarrow> store \<times> nat \<times> nat" where
  "mergeLogins_sources config target [] s = s"
| "mergeLogins_sources config target (profilePath # rest) (st, merged, conflicts) =
     (case map_of st profilePath of
        None \<Rightarrow> mergeLogins_sources config target rest (st, merged, conflicts)
      | Some data \<Rightarrow>
          if profilePath = targetData_toString \<or> length (logins data) = 0
          then mergeLogins_sources config target rest (st, merged, conflicts)
          else mergeLogins_sources config target rest
                 (logins_loop config target profilePath 0 (st, merged, conflicts)))"

definition mergeLogins :: "store \<Rightarrow> string \<Rightarrow> MergeConfig \<Rightarrow> MergeResult \<Rightarrow> store \<times> MergeResult" where
  "mergeLogins sourceData target config result =
     (case mergeLogins_sources config target (map fst sourceData) (sourceData, 0, 0) of
        (st, merged, conflicts) \<Rightarrow>
          (st, result\<lparr>details := (details result)\<lparr>d_logins := \<lparr>n_merged = merged, n_conflicts = conflicts\<rparr>\<rparr>\<rparr>))"

subsection \<open>Data types whose merge is not implemented\<close>

definition zero_counts :: counts where
  "zero_counts = \<lparr>n_merged = 0, n_conflicts = 0\<rparr>"

definition mergeCookies :: "store \<Rightarrow> string \<Rightarrow> MergeConfig \<Rightarrow> MergeResult \<Rightarrow> store \<times> MergeResult" where
  "mergeCookies sourceData target config result =
     (sourceData, result\<lparr>details := (details result)\<lparr>d_cookies := zero_counts\<rparr>\<rparr>)"

definition mergeExtensions :: "store \<Rightarrow> string \<Rightarrow> MergeConfig \<Rightarrow> MergeResult \<Rightarrow> store \<times> MergeResult" where
  "mergeExtensions sourceData target config result =
     (sourceData, result\<lparr>details := (details result)\<lparr>d_extensions := zero_counts\<rparr>\<rparr>)"

definition mergeFormHistory :: "store \<Rightarrow> string \<Rightarrow> MergeConfig \<Rightarrow> MergeResult \<Rightarrow> store \<times> MergeResult" where
  "mergeFormHistory sourceData target config result =
     (sourceData, result\<lparr>details := (details result)\<lparr>d_formHistory := zero_counts\<rparr>\<rparr>)"

definition mergePermissions :: "store \<Rightarrow> string \<Rightarrow> MergeConfig \<Rightarrow> MergeResult \<Rightarrow> store \<times> MergeResult" where
  "mergePermissions sourceData target config result =
     (sourceData, result\<lparr>details := (details result)\<lparr>d_permissions := zero_counts\<rparr>\<rparr>)"

definition mergeSessions :: "store \<Rightarrow> string \<Rightarrow> MergeConfig \<Rightarrow> MergeResult \<Rightarrow> store \<times> MergeResult" where
  "mergeSessions sourceData target config result =
     (sourceData, result\<lparr>details := (details result)\<lparr>d_sessions := zero_counts\<rparr>\<rparr>)"

subsection \<open>mergeProfiles\<close>

text \<open>
  No per-type merge throws on well-typed data, so the \<open>catch\<close> of \<open>mergeSpecificDataType\<close>
  has no branch here. \<open>PREFERENCES\<close> and \<open>ALL\<close> fall to the \<open>default\<close> of the switch, which
  only logs.
\<close>

fun mergeSpecificDataType ::
  "MergeDataType \<Rightarrow> store \<Rightarrow> string \<Rightarrow> MergeConfig \<Rightarrow> MergeResult \<Rightarrow> store \<times> MergeResult" where
  "mergeSpecificDataType BOOKMARKS sourceData target config result = mergeBookmarks sourceData target config result"
| "mergeSpecificDataType HISTORY sourceData target config result = mergeHistory sourceData target config result"
| "mergeSpecificDataType PASSWORDS sourceData target config result = mergeLogins sourceData target config result"
| "mergeSpecificDataType COOKIES sourceData target config result = mergeCookies sourceData target config result"
| "mergeSpecificDataType EXTENSIONS sourceData target config result = mergeExtensions sourceData target config result"
| "mergeSpecificDataType FORM_HISTORY sourceData target config result = mergeFormHistory sourceData target config result"
| "mergeSpecificDataType PERMISSIONS sourceData target config result = mergePermissions sourceData target config result"
| "mergeSpecificDataType SESSIONS sourceData target config result = mergeSessions sourceData target config result"
| "mergeSpecificDataType _ sourceData target config result = (sourceData, result)"

fun merge_each ::
  "MergeDataType list \<Rightarrow> string \<Rightarrow> MergeConfig \<Rightarrow> store \<times> MergeResult \<Rightarrow> store \<times> MergeResult" where
  "merge_each [] target config s = s"
| "merge_each (dataType # rest) target config (sourceData, result) =
     merge_each rest target config (mergeSpecificDataType dataType sourceData target config result)"

definition mergeAllDataTypes :: "store \<Rightarrow> string \<Rightarrow> MergeConfig \<Rightarrow> MergeResult \<Rightarrow> store \<times> MergeResult" where
  "mergeAllDataTypes sourceData target config result =
     merge_each [BOOKMARKS, HISTORY, PASSWORDS, COOKIES, EXTENSIONS, FORM_HISTORY, PERMISSIONS, SESSIONS]
       target config (sourceData, result)"

text \<open>The loop over \<open>config.mergeTypes\<close>, which stops after \<open>ALL\<close>.\<close>

fun mergeTypes_loop ::
  "MergeDataType list \<Rightarrow> string \<Rightarrow> MergeConfig \<Rightarrow> store \<times> MergeResult \<Rightarrow> store \<times> MergeResult" where
  "mergeTypes_loop [] target config s = s"
| "mergeTypes_loop (dataType # rest) target config (sourceData, result) =
     (if dataType = ALL' then mergeAllDataTypes sourceData target config result
      else mergeTypes_loop rest target config (mergeSpecificDataType dataType sourceData target config result))"

definition details_values :: "MergeDetails \<Rightarrow> counts list" where
  "details_values d =
     [d_bookmarks d, d_history d, d_logins d, d_cookies d, d_extensions d, d_formHistory d,
      d_permissions d, d_sessions d]"

definition initial_result :: MergeResult where
  "initial_result =
     \<lparr>success = False, mergedItems = 0, conflictsResolved = 0, errors = [],
      details = \<lparr>d_bookmarks = zero_counts, d_history = zero_counts, d_logins = zero_counts,
                 d_cookies = zero_counts, d_extensions = zero_counts, d_formHistory = zero_counts,
                 d_permissions = zero_counts, d_sessions = zero_counts\<rparr>,
      executionTime = 0\<rparr>"

text \<open>
  \<open>mergeProfiles\<close> returns the result together with the map as the merge leaves it.
  \<open>startTime\<close> and \<open>endTime\<close> are the two readings of the clock.
\<close>

definition mergeProfiles ::
  "store \<Rightarrow> string \<Rightarrow> MergeConfig \<Rightarrow> int \<Rightarrow> int \<Rightarrow> store \<times> MergeResult" where
  "mergeProfiles sourceData targetProfilePath config startTime endTime =
     (case map_of sourceData targetProfilePath of
        None \<Rightarrow>
          (sourceData,
           initial_result\<lparr>errors := [''Merge failed: Target profile data not found: '' @ targetProfilePath],
                          executionTime := endTime - startTime\<rparr>)
      | Some targetData \<Rightarrow>
          (case mergeTypes_loop (mergeTypes config) targetProfilePath config (sourceData, initial_result) of
             (st, result) \<Rightarrow>
               (st,
                result\<lparr>success := (length (errors result) = 0),
                       mergedItems := fold (\<lambda>detail sum. sum + n_merged detail) (details_values (details result)) 0,
                       conflictsResolved := fold (\<lambda>detail sum. sum + n_conflicts detail) (details_values (details result)) 0,
                       executionTime := endTime - startTime\<rparr>)))"

section \<open>Values read from database rows and JSON\<close>

text \<open>
  A field of a row is absent (\<open>undefined\<close> or \<open>null\<close>, here \<open>None\<close>), a text or a number.
  Numbers are modelled as integers; the rounding of the host's double-precision numbers is
  not modelled. \<open>a || b\<close> yields \<open>b\<close> when \<open>a\<close> is absent, the empty text or zero.
\<close>

definition or_text :: "string option \<Rightarrow> string \<Rightarrow> string" where
  "or_text v d = (case v of None \<Rightarrow> d | Some s \<Rightarrow> if s = [] then d else s)"

definition or_number :: "int option \<Rightarrow> int \<Rightarrow> int" where
  "or_number v d = (case v of None \<Rightarrow> d | Some n \<Rightarrow> if n = 0 then d else n)"

definition truthy_text :: "string option \<Rightarrow> bool" where
  "truthy_text v = (case v of None \<Rightarrow> False | Some s \<Rightarrow> s \<noteq> [])"

definition truthy_number :: "int option \<Rightarrow> bool" where
  "truthy_number v = (case v of None \<Rightarrow> False | Some n \<Rightarrow> n \<noteq> 0)"

text \<open>
  \<open>parseInt\<close> of a text: leading white space is skipped, a sign is read, a prefix \<open>0x\<close> selects
  radix 16, and the longest run of digits is converted; without a digit the result is \<open>NaN\<close>
  (\<open>None\<close>).
\<close>

definition digit_value :: "nat \<Rightarrow> char \<Rightarrow> nat option" where
  "digit_value radix c =
     (let n = (of_char c :: nat);
          v = (if ascii_digit c then Some (n - 48)
               else if lower_alpha c then Some (n - 97 + 10)
               else if upper_alpha c then Some (n - 65 + 10)
               else None)
      in case v of None \<Rightarrow> None | Some d \<Rightarrow> if d < radix then Some d else None)"

fun digits_value :: "nat \<Rightarrow> string \<Rightarrow> nat option \<Rightarrow> nat option" where
  "digits_value radix [] acc = acc"
| "digits_value radix (c # cs) acc =
     (case digit_value radix c of
        None \<Rightarrow> acc
      | Some d \<Rightarrow> digits_value radix cs (Some ((case acc of None \<Rightarrow> 0 | Some a \<Rightarrow> a) * radix + d)))"

definition parse_unsigned :: "string \<Rightarrow> nat option" where
  "parse_unsigned s =
     (if prefix ''0x'' s \<or> prefix ''0X'' s then digits_value 16 (drop 2 s) None
      else digits_value 10 s None)"

definition parseInt_text :: "string \<Rightarrow> int option" where
  "parseInt_text s =
     (case dropWhile js_space s of
        [] \<Rightarrow> None
      | c # cs \<Rightarrow>
          if c = CHR ''-'' then map_option (\<lambda>n. - int n) (parse_unsigned cs)
          else if c = CHR ''+'' then map_option int (parse_unsigned cs)
          else map_option int (parse_unsigned (c # cs)))"

text \<open>
  \<open>parseInt\<close> of a number converts it to text first; an integer below \<open>10^21\<close> in magnitude is
  printed in full, a larger one in exponent notation, of which \<open>parseInt\<close> reads the digit
  before the point.
\<close>

definition parseInt_number :: "int \<Rightarrow> int option" where
  "parseInt_number n =
     (if \<bar>n\<bar> < 10 ^ 21 then Some n
      else map_option (\<lambda>d. if n < 0 then - int d else int d)
             (digit_value 10 (hd (show_nat (nat \<bar>n\<bar>)))))"

text \<open>
  \<open>new Date(v)\<close> for a number \<open>v = x / d\<close>: the time value is \<open>v\<close> truncated towards zero, and
  the date is invalid when \<open>v\<close> is \<open>NaN\<close> or beyond 8.64e15 milliseconds.
\<close>

definition new_Date_div :: "int option \<Rightarrow> int \<Rightarrow> date" where
  "new_Date_div x d =
     (case x of
        None \<Rightarrow> None
      | Some v \<Rightarrow> if \<bar>v\<bar> > 8640000000000000 * d then None else Some (sgn v * (\<bar>v\<bar> div d)))"

definition new_Date :: "int \<Rightarrow> date" where
  "new_Date v = new_Date_div (Some v) 1"

text \<open>\<open>s.split(c)\<close> for a one-character separator.\<close>

fun split_on :: "char \<Rightarrow> string \<Rightarrow> string list" where
  "split_on c [] = [[]]"
| "split_on c (x # xs) =
     (if x = c then [] # split_on c xs
      else (case split_on c xs of [] \<Rightarrow> [[x]] | h # t \<Rightarrow> (x # h) # t))"

section \<open>UniversalDataNormalizer\<close>

record firefox_bookmark_row =
  fb_id :: "int option"
  fb_title :: "string option"
  fb_url :: "string option"
  fb_parent_folder :: "string option"
  fb_dateAdded :: "int option"
  fb_lastModified :: "int option"
  fb_tags :: "string option"
  fb_description :: "string option"
  fb_favicon :: "string option"
  fb_visit_count :: "int option"

record chrome_bookmark_row =
  cb_id :: "string option"
  cb_name :: "string option"
  cb_url :: "string option"
  cb_folder :: "string option"
  cb_date_added :: "string option"
  cb_date_modified :: "string option"
  cb_meta_description :: "string option"
  cb_meta_favicon :: "string option"

record firefox_history_row =
  fh_id :: "int option"
  fh_url :: "string option"
  fh_title :: "string option"
  fh_visit_count :: "int option"
  fh_last_visit_date :: "int option"
  fh_first_visit_date :: "int option"
  fh_visit_duration :: "int option"
  fh_referrer :: "string option"

record chrome_history_row =
  ch_id :: "int option"
  ch_url :: "string option"
  ch_title :: "string option"
  ch_visit_count :: "int option"
  ch_last_visit_time :: "int option"
  ch_first_visit_time :: "int option"
  ch_visit_duration :: "int option"

record firefox_login_row =
  fl_id :: "int option"
  fl_hostname :: "string option"
  fl_encryptedUsername :: "string option"
  fl_encryptedPassword :: "string option"
  fl_timeCreated :: "int option"
  fl_timeLastUsed :: "int option"
  fl_timePasswordChanged :: "int option"
  fl_formSubmitURL :: "string option"
  fl_usernameField :: "string option"
  fl_passwordField :: "string option"
  fl_timesUsed :: "int option"

record chrome_login_row =
  cl_id :: "int option"
  cl_origin_url :: "string option"
  cl_username_value :: "string option"
  cl_password_value :: "string option"
  cl_date_created :: "int option"
  cl_date_last_used :: "int option"
  cl_submit_element :: "string option"
  cl_username_element :: "string option"
  cl_password_element :: "string option"
  cl_times_used :: "int option"

text \<open>
  \<open>new URL(url).searchParams.get\<close> is a second service of the platform: \<open>None\<close> when the
  constructor throws, otherwise the look-up of a parameter name.
\<close>

type_synonym url_search = "string \<Rightarrow> (string \<Rightarrow> string option) option"

definition parseFirefoxFolderPath :: "string \<Rightarrow> string list" where
  "parseFirefoxFolderPath folder = filter (\<lambda>f. length f > 0) (split_on CHR ''/'' folder)"

definition parseChromeFolderPath :: "string \<Rightarrow> string list" where
  "parseChromeFolderPath folder = filter (\<lambda>f. length f > 0) (split_on CHR ''/'' folder)"

definition extractDomain :: "url_ctor \<Rightarrow> string \<Rightarrow> string" where
  "extractDomain URL u = (case URL u of Some urlObj \<Rightarrow> hostname urlObj | None \<Rightarrow> u)"

text \<open>An absent URL is converted to the text \<open>undefined\<close> by the constructor.\<close>

definition extractSearchTerm :: "url_search \<Rightarrow> string option \<Rightarrow> string option" where
  "extractSearchTerm SEARCH u =
     (case SEARCH (case u of None \<Rightarrow> ''undefined'' | Some s \<Rightarrow> s) of
        None \<Rightarrow> None
      | Some get \<Rightarrow>
          if truthy_text (get ''q'') then get ''q''
          else if truthy_text (get ''search'') then get ''search''
          else None)"

text \<open>
  Every \<open>normalize\<close> function maps the rows with their index; \<open>now\<close> is the reading of
  \<open>Date.now()\<close>. A \<open>Date\<close> object is never falsy, so the alternative in
  \<open>new Date(..) || new Date()\<close> is never taken.
\<close>

definition normalizeFirefoxBookmarks ::
  "int \<Rightarrow> firefox_bookmark_row list \<Rightarrow> string \<Rightarrow> UniversalBookmark list" where
  "normalizeFirefoxBookmarks now firefoxBookmarks profilePath =
     map (\<lambda>(index, bookmark).
       \<lparr>ub_id = ''ff_bm_'' @ (if truthy_number (fb_id bookmark) then show_int (or_number (fb_id bookmark) 0) else show_nat index),
        ub_title = or_text (fb_title bookmark) ''Untitled'',
        ub_url = or_text (fb_url bookmark) '''',
        ub_folder = parseFirefoxFolderPath (or_text (fb_parent_folder bookmark) ''Bookmarks''),
        ub_dateAdded = new_Date (or_number (fb_dateAdded bookmark) now),
        ub_dateModified = (if truthy_number (fb_lastModified bookmark)
                           then Some (new_Date (or_number (fb_lastModified bookmark) 0)) else None),
        ub_sourceProfile = profilePath,
        ub_sourceBrowser = FIREFOX,
        ub_tags = (if truthy_text (fb_tags bookmark)
                   then map trim (split_on CHR '','' (or_text (fb_tags bookmark) '''')) else []),
        ub_description = fb_description bookmark,
        ub_favicon = fb_favicon bookmark,
        ub_visitCount = Some (or_number (fb_visit_count bookmark) 0)\<rparr>)
       (enumerate 0 firefoxBookmarks)"

definition normalizeChromeBookmarks ::
  "chrome_bookmark_row list \<Rightarrow> string \<Rightarrow> BrowserType \<Rightarrow> UniversalBookmark list" where
  "normalizeChromeBookmarks chromeBookmarks profilePath browserType =
     map (\<lambda>(index, bookmark).
       \<lparr>ub_id = ''chr_bm_'' @ or_text (cb_id bookmark) (show_nat index),
        ub_title = or_text (cb_name bookmark) ''Untitled'',
        ub_url = or_text (cb_url bookmark) '''',
        ub_folder = parseChromeFolderPath (or_text (cb_folder bookmark) ''Bookmarks Bar''),
        ub_dateAdded = new_Date_div (Option.bind (cb_date_added bookmark) parseInt_text) 1000,
        ub_dateModified = (if truthy_text (cb_date_modified bookmark)
                           then Some (new_Date_div (Option.bind (cb_date_modified bookmark) parseInt_text) 1000)
                           else None),
        ub_sourceProfile = profilePath,
        ub_sourceBrowser = browserType,
        ub_tags = [],
        ub_description = cb_meta_description bookmark,
        ub_favicon = cb_meta_favicon bookmark,
        ub_visitCount = Some 0\<rparr>)
       (enumerate 0 chromeBookmarks)"

definition normalizeFirefoxHistory ::
  "url_search \<Rightarrow> int \<Rightarrow> firefox_history_row list \<Rightarrow> string \<Rightarrow> UniversalHistoryEntry list" where
  "normalizeFirefoxHistory SEARCH now firefoxHistory profilePath =
     map (\<lambda>(index, entry).
       \<lparr>uh_id = ''ff_hist_'' @ (if truthy_number (fh_id entry) then show_int (or_number (fh_id entry) 0) else show_nat index),
        uh_url = or_text (fh_url entry) '''',
        uh_title = or_text (fh_title entry) ''Untitled'',
        uh_visitCount = or_number (fh_visit_count entry) 1,
        uh_lastVisit = new_Date (or_number (fh_last_visit_date entry) now),
        uh_firstVisit = new_Date (or_number (fh_first_visit_date entry) (or_number (fh_last_visit_date entry) now)),
        uh_sourceProfile = profilePath,
        uh_sourceBrowser = FIREFOX,
        uh_duration = fh_visit_duration entry,
        uh_referrer = fh_referrer entry,
        uh_searchTerm = extractSearchTerm SEARCH (fh_url entry)\<rparr>)
       (enumerate 0 firefoxHistory)"

definition normalizeChromeHistory ::
  "url_search \<Rightarrow> chrome_history_row list \<Rightarrow> string \<Rightarrow> BrowserType \<Rightarrow> UniversalHistoryEntry list" where
  "normalizeChromeHistory SEARCH chromeHistory profilePath browserType =
     map (\<lambda>(index, entry).
       \<lparr>uh_id = ''chr_hist_'' @ (if truthy_number (ch_id entry) then show_int (or_number (ch_id entry) 0) else show_nat index),
        uh_url = or_text (ch_url entry) '''',
        uh_title = or_text (ch_title entry) ''Untitled'',
        uh_visitCount = or_number (ch_visit_count entry) 1,
        uh_lastVisit = new_Date_div (Option.bind (ch_last_visit_time entry) parseInt_number) 1000,
        uh_firstVisit = new_Date_div (Option.bind (ch_first_visit_time entry) parseInt_number) 1000,
        uh_sourceProfile = profilePath,
        uh_sourceBrowser = browserType,
        uh_duration = ch_visit_duration entry,
        uh_referrer = None,
        uh_searchTerm = extractSearchTerm SEARCH (ch_url entry)\<rparr>)
       (enumerate 0 chromeHistory)"

definition normalizeFirefoxLogins ::
  "url_ctor \<Rightarrow> int \<Rightarrow> firefox_login_row list \<Rightarrow> string \<Rightarrow> UniversalLogin list" where
  "normalizeFirefoxLogins URL now firefoxLogins profilePath =
     map (\<lambda>(index, login).
       \<lparr>ul_id = ''ff_login_'' @ (if truthy_number (fl_id login) then show_int (or_number (fl_id login) 0) else show_nat index),
        ul_url = or_text (fl_hostname login) '''',
        ul_domain = extractDomain URL (or_text (fl_hostname login) ''''),
        ul_username = or_text (fl_encryptedUsername login) '''',
        ul_passwordHash = or_text (fl_encryptedPassword login) ''[ENCRYPTED]'',
        ul_dateCreated = new_Date (or_number (fl_timeCreated login) now),
        ul_dateLastUsed = new_Date (or_number (fl_timeLastUsed login) now),
        ul_datePasswordChanged = (if truthy_number (fl_timePasswordChanged login)
                                  then Some (new_Date (or_number (fl_timePasswordChanged login) 0)) else None),
        ul_sourceProfile = profilePath,
        ul_sourceBrowser = FIREFOX,
        ul_formSubmitUrl = fl_formSubmitURL login,
        ul_usernameField = fl_usernameField login,
        ul_passwordField = fl_passwordField login,
        ul_timesUsed = or_number (fl_timesUsed login) 1\<rparr>)
       (enumerate 0 firefoxLogins)"

definition normalizeChromeLogins ::
  "url_ctor \<Rightarrow> chrome_login_row list \<Rightarrow> string \<Rightarrow> BrowserType \<Rightarrow> UniversalLogin list" where
  "normalizeChromeLogins URL chromeLogins profilePath browserType =
     map (\<lambda>(index, login).
       \<lparr>ul_id = ''chr_login_'' @ (if truthy_number (cl_id login) then show_int (or_number (cl_id login) 0) else show_nat index),
        ul_url = or_text (cl_origin_url login) '''',
        ul_domain = extractDomain URL (or_text (cl_origin_url login) ''''),
        ul_username = or_text (cl_username_value login) '''',
        ul_passwordHash = or_text (cl_password_value login) ''[ENCRYPTED]'',
        ul_dateCreated = new_Date_div (Option.bind (cl_date_created login) parseInt_number) 1000,
        ul_dateLastUsed = new_Date_div (Option.bind (cl_date_last_used login) parseInt_number) 1000,
        ul_datePasswordChanged = None,
        ul_sourceProfile = profilePath,
        ul_sourceBrowser = browserType,
        ul_formSubmitUrl = cl_submit_element login,
        ul_usernameField = cl_username_element login,
        ul_passwordField = cl_password_element login,
        ul_timesUsed = or_number (cl_times_used login) 1\<rparr>)
       (enumerate 0 chromeLogins)"

section \<open>RealDataExtractor: rows of a Chrome profile\<close>

text \<open>
  \<open>extractChromeData\<close> maps the rows delivered by \<open>SQLiteProcessor\<close> to the records of the
  extraction result; the three functions below are the three arrow functions it maps. The
  bookmark rows come from the \<open>Bookmarks\<close> JSON file, where the timestamps are texts; the
  history and login rows come from SQL, where they are numbers. The numeric id of a history
  row is kept as its decimal text.
\<close>

record chrome_bookmark_json =
  cj_id :: string
  cj_name :: string
  cj_url :: string
  cj_date_added :: "string option"
  cj_date_modified :: "string option"
  cj_folder_path :: string

record chrome_urls_row =
  cu_id :: int
  cu_url :: string
  cu_title :: "string option"
  cu_visit_count :: "int option"
  cu_typed_count :: "int option"
  cu_last_visit_time :: int

record chrome_logins_row =
  cg_origin_url :: string
  cg_action_url :: string
  cg_username_value :: string
  cg_date_created :: int
  cg_date_last_used :: int
  cg_times_used :: int

definition extractChrome_bookmark :: "string \<Rightarrow> chrome_bookmark_json \<Rightarrow> bookmark" where
  "extractChrome_bookmark profile_path row =
     \<lparr>bm_id = cj_id row,
      bm_title = cj_name row,
      bm_url = cj_url row,
      bm_dateAdded = new_Date_div (Option.bind (cj_date_added row) parseInt_text) 1000,
      bm_lastModified = new_Date_div (Option.bind (cj_date_modified row) parseInt_text) 1000,
      bm_visitCount = 0,
      bm_folder = cj_folder_path row,
      bm_source = profile_path,
      bm_browserType = CHROME,
      bm_mergedFrom = None\<rparr>"

definition extractChrome_history :: "string \<Rightarrow> chrome_urls_row \<Rightarrow> history_entry" where
  "extractChrome_history profile_path entry =
     \<lparr>he_id = show_int (cu_id entry),
      he_url = cu_url entry,
      he_title = or_text (cu_title entry) '''',
      he_visitCount = or_number (cu_visit_count entry) 0,
      he_lastVisitTime = new_Date_div (Some (cu_last_visit_time entry - 11644473600000000)) 1000,
      he_typedCount = or_number (cu_typed_count entry) 0,
      he_source = profile_path,
      he_browserType = CHROME,
      he_mergedFrom = None\<rparr>"

definition extractChrome_login :: "string \<Rightarrow> chrome_logins_row \<Rightarrow> login" where
  "extractChrome_login profile_path row =
     \<lparr>lg_id = cg_origin_url row @ ''_'' @ cg_username_value row,
      lg_hostname = cg_origin_url row,
      lg_username = cg_username_value row,
      lg_password = ''[ENCRYPTED]'',
      lg_formSubmitURL = cg_action_url row,
      lg_timeCreated = new_Date_div (Some (cg_date_created row - 11644473600000000)) 1000,
      lg_timeLastUsed = new_Date_div (Some (cg_date_last_used row - 11644473600000000)) 1000,
      lg_timesUsed = cg_times_used row,
      lg_source = profile_path,
      lg_browserType = CHROME,
      lg_mergedFrom = None\<rparr>"

text \<open>
  The conversion as the specification words it: subtract the epoch offset of
  11,644,473,600,000,000 microseconds, then scale to milliseconds.
\<close>

definition spec_chrome_time_to_unix_ms :: "int \<Rightarrow> int" where
  "spec_chrome_time_to_unix_ms microseconds_since_1601 = (microseconds_since_1601 - 11644473600000000) div 1000"

section \<open>SQLiteCorruptionHandler\<close>

datatype corruption_type = E_none | E_header | E_page | E_index | E_schema | E_unknown

datatype recovery_method = M_none | M_dump | M_recover | M_manual_export

record CorruptionCheckResult =
  isCorrupted :: bool
  errorType :: corruption_type
  errorMessage :: string
  recoverable :: bool
  suggestedAction :: string

record RecoveryResult =
  rr_success :: bool
  rr_method :: recovery_method
  recoveredTables :: "string list"
  lostData :: "string list"
  errorLog :: "string list"
  outputSize :: nat

text \<open>
  The handler asks the file system for the size of the file and draws random numbers. Both
  are inputs here: \<open>env_fileSize\<close> is what \<open>getFileSize\<close> answers (or the error it throws),
  \<open>env_corruptionPick\<close> the index \<open>Math.floor(Math.random() * 5)\<close>, \<open>env_dumpDraw i\<close> and
  \<open>env_recoverDraw i\<close> whether the draw for table \<open>i\<close> exceeded the threshold (0.2 for the dump,
  0.1 for the recover command), and the two sizes the values of
  \<open>Math.floor(Math.random() * ...)\<close> for the output size.
\<close>

record recovery_env =
  env_fileSize :: "string + nat"
  env_corruptionPick :: nat
  env_dumpDraw :: "nat \<Rightarrow> bool"
  env_dumpSize :: nat
  env_recoverDraw :: "nat \<Rightarrow> bool"
  env_recoverSize :: nat

definition corruptionTypes :: "corruption_type list" where
  "corruptionTypes = [E_none, E_header, E_page, E_index, E_schema]"

definition unknown_check :: "string \<Rightarrow> CorruptionCheckResult" where
  "unknown_check error =
     \<lparr>isCorrupted = True, errorType = E_unknown,
      errorMessage = ''Cannot access database: '' @ error,
      recoverable = False,
      suggestedAction = ''File may be locked or inaccessible''\<rparr>"

text \<open>
  An index outside the list would make \<open>details\<close> undefined and the read of
  \<open>details.message\<close> throw, which the \<open>catch\<close> turns into the \<open>unknown\<close> answer.
\<close>

definition checkDatabaseIntegrity :: "recovery_env \<Rightarrow> string \<Rightarrow> CorruptionCheckResult" where
  "checkDatabaseIntegrity env filePath =
     (case env_fileSize env of
        Inl error \<Rightarrow> unknown_check error
      | Inr fileSize \<Rightarrow>
          if fileSize = 0 then
            \<lparr>isCorrupted = True, errorType = E_header,
             errorMessage = ''Database file is empty'',
             recoverable = False,
             suggestedAction = ''File cannot be recovered - it contains no data''\<rparr>
          else if env_corruptionPick env < length corruptionTypes then
            (case corruptionTypes ! env_corruptionPick env of
               E_none \<Rightarrow>
                 \<lparr>isCorrupted = False, errorType = E_none, errorMessage = '''',
                  recoverable = True,
                  suggestedAction = ''Database is healthy - proceed with normal extraction''\<rparr>
             | E_header \<Rightarrow>
                 \<lparr>isCorrupted = True, errorType = E_header,
                  errorMessage = ''SQLite header is corrupted or invalid'',
                  recoverable = True,
                  suggestedAction = ''Attempt .dump recovery to extract readable data''\<rparr>
             | E_page \<Rightarrow>
                 \<lparr>isCorrupted = True, errorType = E_page,
                  errorMessage = ''Database pages are corrupted - some data may be unreadable'',
                  recoverable = True,
                  suggestedAction = ''Use .recover command to extract maximum possible data''\<rparr>
             | E_index \<Rightarrow>
                 \<lparr>isCorrupted = True, errorType = E_index,
                  errorMessage = ''Database indexes are corrupted but data may be intact'',
                  recoverable = True,
                  suggestedAction = ''Rebuild indexes after data extraction''\<rparr>
             | E_schema \<Rightarrow>
                 \<lparr>isCorrupted = True, errorType = E_schema,
                  errorMessage = ''Database schema is corrupted - structure may be damaged'',
                  recoverable = True,
                  suggestedAction = ''Manual table recovery required''\<rparr>
             | E_unknown \<Rightarrow> unknown_check ''TypeError'')
          else unknown_check ''TypeError'')"

text \<open>
  \<open>tables.filter(() => Math.random() > t)\<close>: one draw per table, in order; \<open>i\<close> counts the
  draws made so far.
\<close>

fun filter_drawn :: "(nat \<Rightarrow> bool) \<Rightarrow> nat \<Rightarrow> string list \<Rightarrow> string list" where
  "filter_drawn draw i [] = []"
| "filter_drawn draw i (table # tables) =
     (if draw i then table # filter_drawn draw (i + 1) tables else filter_drawn draw (i + 1) tables)"

definition attemptDumpRecovery :: "recovery_env \<Rightarrow> string \<Rightarrow> string \<Rightarrow> RecoveryResult" where
  "attemptDumpRecovery env filePath outputPath =
     (let allTables = [''moz_bookmarks'', ''moz_places'', ''moz_historyvisits'', ''moz_logins''];
          recovered = filter_drawn (env_dumpDraw env) 0 allTables;
          lost = filter (\<lambda>table. table \<notin> set recovered) allTables
      in if length recovered > 0
         then \<lparr>rr_success = True, rr_method = M_dump, recoveredTables = recovered, lostData = lost,
               errorLog = [], outputSize = env_dumpSize env + 100000\<rparr>
         else \<lparr>rr_success = False, rr_method = M_dump, recoveredTables = [], lostData = [],
               errorLog = [''No tables could be recovered from database dump''], outputSize = 0\<rparr>)"

definition attemptRecoverCommand :: "recovery_env \<Rightarrow> string \<Rightarrow> string \<Rightarrow> RecoveryResult" where
  "attemptRecoverCommand env filePath outputPath =
     (let allTables = [''moz_bookmarks'', ''moz_places'', ''moz_historyvisits'', ''moz_logins'', ''moz_cookies''];
          recovered = filter_drawn (env_recoverDraw env) 0 allTables;
          lost = filter (\<lambda>table. table \<notin> set recovered) allTables
      in if length recovered > 0
         then \<lparr>rr_success = True, rr_method = M_recover, recoveredTables = recovered, lostData = lost,
               errorLog = [], outputSize = env_recoverSize env + 200000\<rparr>
         else \<lparr>rr_success = False, rr_method = M_recover, recoveredTables = [], lostData = [],
               errorLog = [''Recovery command found no salvageable data''], outputSize = 0\<rparr>)"

text \<open>
  \<open>recoverDatabase\<close> returns its result together with the list of the recovery methods it
  called, in the order of the calls.
\<close>

definition recoverDatabase :: "recovery_env \<Rightarrow> string \<Rightarrow> string \<Rightarrow> RecoveryResult \<times> recovery_method list" where
  "recoverDatabase env filePath outputDir =
     (let integrityCheck = checkDatabaseIntegrity env filePath
      in if \<not> isCorrupted integrityCheck then
           (\<lparr>rr_success = True, rr_method = M_none, recoveredTables = [], lostData = [],
             errorLog = [], outputSize = 0\<rparr>, [])
         else if \<not> recoverable integrityCheck then
           (\<lparr>rr_success = False, rr_method = M_none, recoveredTables = [],
             lostData = [''entire_database''], errorLog = [errorMessage integrityCheck],
             outputSize = 0\<rparr>, [])
         else
           let dumpResult = attemptDumpRecovery env filePath (outputDir @ ''/dump_recovery.sql'')
           in if rr_success dumpResult \<and> length (recoveredTables dumpResult) > 0
              then (dumpResult, [M_dump])
              else
                let recoverResult = attemptRecoverCommand env filePath (outputDir @ ''/recover_recovery.db'')
                in if rr_success recoverResult \<and> length (recoveredTables recoverResult) > 0
                   then (recoverResult, [M_dump, M_recover])
                   else
                     (\<lparr>rr_success = False, rr_method = M_manual_export, recoveredTables = [],
                       lostData = [''entire_database''],
                       errorLog = errorLog dumpResult @ errorLog recoverResult @
                                  [''Manual recovery may be possible with specialized tools''],
                       outputSize = 0\<rparr>, [M_dump, M_recover]))"

section \<open>Concrete merges\<close>

definition empty_dataset :: RealExtractionResult where
  "empty_dataset =
     \<lparr>bookmarks = [], history = [], logins = [], cookies = [], extensions = [], formHistory = [],
      permissions = [], sessions = [], totalItems = 0, extractionTime = 0, extraction_errors = []\<rparr>"

definition example_bookmark :: "string \<Rightarrow> string \<Rightarrow> string \<Rightarrow> bookmark" where
  "example_bookmark ident address profile =
     \<lparr>bm_id = ident, bm_title = ''Example'', bm_url = address, bm_dateAdded = Some 1700000000000,
      bm_lastModified = Some 1700000000000, bm_visitCount = 0, bm_folder = ''Bookmarks Bar'',
      bm_source = profile, bm_browserType = CHROME, bm_mergedFrom = None\<rparr>"

definition example_history :: "string \<Rightarrow> int \<Rightarrow> int \<Rightarrow> string \<Rightarrow> history_entry" where
  "example_history address visits lastVisit profile =
     \<lparr>he_id = ''1'', he_url = address, he_title = ''A'', he_visitCount = visits,
      he_lastVisitTime = Some lastVisit, he_typedCount = 0, he_source = profile,
      he_browserType = FIREFOX, he_mergedFrom = None\<rparr>"

text \<open>
  An empty target, and one source with two bookmarks whose URLs differ by a trailing slash.
\<close>

definition slash_sourceData :: store where
  "slash_sourceData =
     [(''/profiles/target'', empty_dataset),
      (''/profiles/work'',
       empty_dataset\<lparr>bookmarks :=
         [example_bookmark ''10'' ''https://example.com/'' ''/profiles/work'',
          example_bookmark ''11'' ''https://example.com'' ''/profiles/work'']\<rparr>)]"

text \<open>An empty target, and two sources that hold a bookmark of the same URL.\<close>

definition shared_sourceData :: store where
  "shared_sourceData =
     [(''/profiles/target'', empty_dataset),
      (''/profiles/work'',
       empty_dataset\<lparr>bookmarks := [example_bookmark ''10'' ''https://example.com/'' ''/profiles/work'']\<rparr>),
      (''/profiles/home'',
       empty_dataset\<lparr>bookmarks := [example_bookmark ''20'' ''https://example.com/'' ''/profiles/home'']\<rparr>)]"

definition bookmarks_config :: "bool \<Rightarrow> MergeConfig" where
  "bookmarks_config dry = \<lparr>mergeTypes = [BOOKMARKS], conflictResolution = KEEP_NEWEST, dryRun = dry\<rparr>"

text \<open>
  Scenario B: the target visited \<open>https://a.com\<close> three times, last at time 1000; the source
  visited it twice, last at time 2000.
\<close>

definition scenarioB_target :: RealExtractionResult where
  "scenarioB_target = empty_dataset\<lparr>history := [example_history ''https://a.com'' 3 1000 ''/profiles/target'']\<rparr>"

definition scenarioB_incoming :: history_entry where
  "scenarioB_incoming = example_history ''https://a.com'' 2 2000 ''/profiles/work''"

definition scenarioB_sourceData :: store where
  "scenarioB_sourceData =
     [(''/profiles/target'', scenarioB_target),
      (''/profiles/work'', empty_dataset\<lparr>history := [scenarioB_incoming]\<rparr>)]"

text \<open>Scenario B with a trailing slash on the target's URL.\<close>

definition slashB_sourceData :: store where
  "slashB_sourceData =
     [(''/profiles/target'',
       empty_dataset\<lparr>history := [example_history ''https://a.com/'' 3 1000 ''/profiles/target'']\<rparr>),
      (''/profiles/work'', empty_dataset\<lparr>history := [scenarioB_incoming]\<rparr>)]"

definition history_config :: "ConflictResolution \<Rightarrow> bool \<Rightarrow> MergeConfig" where
  "history_config strategy dry = \<lparr>mergeTypes = [HISTORY], conflictResolution = strategy, dryRun = dry\<rparr>"

section \<open>Concrete rows and recovery runs\<close>

text \<open>A Chrome timestamp: 13,300,000,000,000,000 microseconds after 1601-01-01.\<close>

definition chrome_history_example :: chrome_history_row where
  "chrome_history_example =
     \<lparr>ch_id = Some 7, ch_url = Some ''https://a.com'', ch_title = Some ''A'', ch_visit_count = Some 3,
      ch_last_visit_time = Some 13300000000000000, ch_first_visit_time = Some 13300000000000000,
      ch_visit_duration = None\<rparr>"

definition chrome_bookmark_example :: chrome_bookmark_row where
  "chrome_bookmark_example =
     \<lparr>cb_id = Some ''5'', cb_name = Some ''A'', cb_url = Some ''https://a.com'', cb_folder = None,
      cb_date_added = Some ''13300000000000000'', cb_date_modified = Some ''13300000000000000'',
      cb_meta_description = None, cb_meta_favicon = None\<rparr>"

definition chrome_login_example :: chrome_login_row where
  "chrome_login_example =
     \<lparr>cl_id = None, cl_origin_url = Some ''https://a.com/'', cl_username_value = Some ''bob'',
      cl_password_value = None, cl_date_created = Some 13300000000000000,
      cl_date_last_used = Some 13300000000000000, cl_submit_element = None,
      cl_username_element = None, cl_password_element = None, cl_times_used = Some 2\<rparr>"

definition chrome_json_example :: chrome_bookmark_json where
  "chrome_json_example =
     \<lparr>cj_id = ''5'', cj_name = ''A'', cj_url = ''https://a.com'',
      cj_date_added = Some ''13300000000000000'', cj_date_modified = Some ''13300000000000000'',
      cj_folder_path = ''Bookmarks Bar''\<rparr>"

definition chrome_urls_example :: chrome_urls_row where
  "chrome_urls_example =
     \<lparr>cu_id = 7, cu_url = ''https://a.com'', cu_title = Some ''A'', cu_visit_count = Some 3,
      cu_typed_count = Some 0, cu_last_visit_time = 13300000000000000\<rparr>"

definition chrome_logins_example :: chrome_logins_row where
  "chrome_logins_example =
     \<lparr>cg_origin_url = ''https://a.com/'', cg_action_url = ''https://a.com/login'',
      cg_username_value = ''bob'', cg_date_created = 13300000000000000,
      cg_date_last_used = 13300000000000000, cg_times_used = 2\<rparr>"

text \<open>Rows in which every optional field is absent.\<close>

definition bare_firefox_bookmark :: firefox_bookmark_row where
  "bare_firefox_bookmark =
     \<lparr>fb_id = None, fb_title = None, fb_url = None, fb_parent_folder = None, fb_dateAdded = None,
      fb_lastModified = None, fb_tags = None, fb_description = None, fb_favicon = None,
      fb_visit_count = None\<rparr>"

definition bare_chrome_bookmark :: chrome_bookmark_row where
  "bare_chrome_bookmark =
     \<lparr>cb_id = None, cb_name = None, cb_url = None, cb_folder = None, cb_date_added = None,
      cb_date_modified = None, cb_meta_description = None, cb_meta_favicon = None\<rparr>"

definition bare_firefox_history :: firefox_history_row where
  "bare_firefox_history =
     \<lparr>fh_id = None, fh_url = Some ''https://a.com'', fh_title = None, fh_visit_count = None,
      fh_last_visit_date = None, fh_first_visit_date = None, fh_visit_duration = None,
      fh_referrer = None\<rparr>"

definition bare_chrome_history :: chrome_history_row where
  "bare_chrome_history =
     \<lparr>ch_id = None, ch_url = Some ''https://a.com'', ch_title = None, ch_visit_count = None,
      ch_last_visit_time = None, ch_first_visit_time = None, ch_visit_duration = None\<rparr>"

text \<open>
  Four runs of the recovery: the dump recovers two tables; the dump recovers none and the
  recover command one; neither recovers a table; the file is empty.
\<close>

definition env_dump_succeeds :: recovery_env where
  "env_dump_succeeds =
     \<lparr>env_fileSize = Inr 2000000, env_corruptionPick = 2, env_dumpDraw = (\<lambda>i. i < 2),
      env_dumpSize = 5, env_recoverDraw = (\<lambda>i. True), env_recoverSize = 7\<rparr>"

definition env_recover_succeeds :: recovery_env where
  "env_recover_succeeds =
     \<lparr>env_fileSize = Inr 2000000, env_corruptionPick = 2, env_dumpDraw = (\<lambda>i. False),
      env_dumpSize = 5, env_recoverDraw = (\<lambda>i. i = 4), env_recoverSize = 7\<rparr>"

definition env_nothing_recovered :: recovery_env where
  "env_nothing_recovered =
     \<lparr>env_fileSize = Inr 2000000, env_corruptionPick = 1, env_dumpDraw = (\<lambda>i. False),
      env_dumpSize = 5, env_recoverDraw = (\<lambda>i. False), env_recoverSize = 7\<rparr>"

definition env_empty_file :: recovery_env where
  "env_empty_file =
     \<lparr>env_fileSize = Inr 0, env_corruptionPick = 2, env_dumpDraw = (\<lambda>i. True),
      env_dumpSize = 5, env_recoverDraw = (\<lambda>i. True), env_recoverSize = 7\<rparr>"

section \<open>Scenarios of the specification\<close>





section \<open>Properties of URL normalisation\<close>

subsection \<open>Trailing slashes and hostnames\<close>

lemma strip_append:
  "strip_trailing_slashes (a @ b) = (if strip_trailing_slashes b = [] then strip_trailing_slashes a else a @ strip_trailing_slashes b)"
  by (auto simp: strip_trailing_slashes_def dropWhile_append)

lemma strip_id: "s \<noteq> [] \<Longrightarrow> last s \<noteq> CHR ''/'' \<Longrightarrow> strip_trailing_slashes s = s"
  by (cases s rule: rev_cases) (auto simp: strip_trailing_slashes_def)

lemma strip_last: "strip_trailing_slashes s \<noteq> [] \<Longrightarrow> last (strip_trailing_slashes s) \<noteq> CHR ''/''"
  unfolding strip_trailing_slashes_def
  by (metis (mono_tags, lifting) hd_dropWhile last_rev rev_is_Nil_conv)

lemma strip_prefix: "prefix (strip_trailing_slashes s) s"
  unfolding strip_trailing_slashes_def
  by (metis prefix_def rev_append rev_rev_ident takeWhile_dropWhile_id)

lemma host_no_slash: "host_labels b h \<Longrightarrow> CHR ''/'' \<notin> set h"
  by (induction b h rule: host_labels.induct) (auto simp: lower_alpha_def ascii_digit_def split: if_splits)

lemma host_strip_www: "host_labels True h \<Longrightarrow> host_labels True (strip_www h)"
  by (auto simp: strip_www_def prefix_def lower_alpha_def ascii_digit_def)

lemma strip_host: "host_labels True h \<Longrightarrow> strip_trailing_slashes (p @ h) = p @ h"
proof -
  assume h: "host_labels True h"
  then have "h \<noteq> []" by auto
  moreover from h have "last h \<noteq> CHR ''/''" using host_no_slash[OF h] \<open>h \<noteq> []\<close> last_in_set by metis
  ultimately show ?thesis by (simp add: strip_id)
qed

lemma strip_host_path:
  assumes "host_labels True h"
  shows "strip_trailing_slashes (p @ h @ x) = p @ h @ strip_trailing_slashes x"
  using strip_append[of "p @ h" x] strip_host[OF assms, of p] by simp

lemma URL_model_parts:
  assumes "URL_model u = Some p"
  obtains path where "protocol p = ''https:'' \<or> protocol p = ''http:''"
    "host_labels True (hostname p)" "list_all path_char path"
    "path = [] \<or> hd path = CHR ''/''" "pathname p = (if path = [] then ''/'' else path)"
proof -
  from assms obtain proto rest where sp: "split_scheme u = Some (proto, rest)"
    by (auto simp: URL_model_def split: option.splits)
  let ?host = "takeWhile (\<lambda>c. c \<noteq> CHR ''/'') rest"
  let ?path = "dropWhile (\<lambda>c. c \<noteq> CHR ''/'') rest"
  from assms sp have ok: "host_labels True ?host" "list_all path_char ?path"
    and p: "p = \<lparr>protocol = proto, hostname = ?host, pathname = (if ?path = [] then ''/'' else ?path)\<rparr>"
    by (auto simp: URL_model_def Let_def split: if_splits)
  from sp have "proto = ''https:'' \<or> proto = ''http:''"
    by (auto simp: split_scheme_def split: if_splits)
  moreover have "?path = [] \<or> hd ?path = CHR ''/''"
    using hd_dropWhile[of "\<lambda>c. c \<noteq> CHR ''/''" rest] by auto
  ultimately show ?thesis using that[of ?path] ok p by simp
qed

lemma URL_model_reparse:
  assumes proto: "proto = ''https:'' \<or> proto = ''http:''"
    and h: "host_labels True h"
    and q: "list_all path_char q" "q = [] \<or> hd q = CHR ''/''"
  shows "URL_model (proto @ ''//'' @ h @ q) = Some \<lparr>protocol = proto, hostname = h, pathname = (if q = [] then ''/'' else q)\<rparr>"
proof -
  have sp: "split_scheme (proto @ ''//'' @ h @ q) = Some (proto, h @ q)"
    using proto by (auto simp: split_scheme_def)
  have tw: "takeWhile (\<lambda>c. c \<noteq> CHR ''/'') (h @ q) = h"
    using host_no_slash[OF h] q(2) by (cases q) (auto simp: takeWhile_append)
  have dw: "dropWhile (\<lambda>c. c \<noteq> CHR ''/'') (h @ q) = q"
    using host_no_slash[OF h] q(2) by (cases q) (auto simp: dropWhile_append)
  show ?thesis
    unfolding URL_model_def sp by (simp add: tw dw h q)
qed

lemma strip_path:
  assumes "list_all path_char path" "path = [] \<or> hd path = CHR ''/''"
  shows "list_all path_char (strip_trailing_slashes path)"
    and "strip_trailing_slashes path = [] \<or> hd (strip_trailing_slashes path) = CHR ''/''"
proof -
  define s where s: "s = strip_trailing_slashes path"
  have "prefix s path" unfolding s by (rule strip_prefix)
  then obtain r where r: "path = s @ r" unfolding prefix_def by blast
  have "list_all path_char s" using assms(1) unfolding r by simp
  moreover have "s = [] \<or> hd s = CHR ''/''" using assms(2) unfolding r by (cases s) auto
  ultimately show "list_all path_char (strip_trailing_slashes path)"
    and "strip_trailing_slashes path = [] \<or> hd (strip_trailing_slashes path) = CHR ''/''"
    unfolding s by simp_all
qed

lemma normalizeUrl_http:
  assumes "URL_model u = Some p"
  obtains q where "normalizeUrl URL_model u = protocol p @ ''//'' @ strip_www (hostname p) @ q"
     "list_all path_char q" "q = [] \<or> hd q = CHR ''/''" "q = [] \<or> last q \<noteq> CHR ''/''"
proof -
  from assms obtain path where pp: "host_labels True (hostname p)" "list_all path_char path"
    "path = [] \<or> hd path = CHR ''/''" "pathname p = (if path = [] then ''/'' else path)"
    by (rule URL_model_parts)
  let ?q = "strip_trailing_slashes path"
  have sq: "strip_trailing_slashes (pathname p) = ?q"
    using pp(4) by (auto simp: strip_trailing_slashes_def)
  have hs: "host_labels True (strip_www (hostname p))" using pp(1) by (rule host_strip_www)
  have "normalizeUrl URL_model u = strip_trailing_slashes ((protocol p @ ''//'' @ strip_www (hostname p)) @ pathname p)"
    using assms by (simp add: normalizeUrl_def)
  also have "\<dots> = protocol p @ ''//'' @ strip_www (hostname p) @ ?q"
    using strip_host_path[OF hs, of "protocol p @ ''//''" "pathname p"] sq by simp
  finally have 1: "normalizeUrl URL_model u = protocol p @ ''//'' @ strip_www (hostname p) @ ?q" .
  show ?thesis
    using that[OF 1] strip_path[OF pp(2,3)] strip_last[of path] by blast
qed

text \<open>
  One leading \<open>www.\<close> is removed per call and nothing else of a normal form changes: on the
  \<open>http\<close> and \<open>https\<close> URLs described by \<open>URL_model\<close>, normalising twice gives the same as
  normalising once exactly when the hostname does not begin with \<open>www.\<close> twice.
\<close>

lemma normalizeUrl_twice_single_www:
  assumes p: "URL_model u = Some p" and nw: "\<not> prefix ''www.'' (strip_www (hostname p))"
  shows "normalizeUrl URL_model (normalizeUrl URL_model u) = normalizeUrl URL_model u"
proof -
  from p obtain q where q: "normalizeUrl URL_model u = protocol p @ ''//'' @ strip_www (hostname p) @ q"
     "list_all path_char q" "q = [] \<or> hd q = CHR ''/''" "q = [] \<or> last q \<noteq> CHR ''/''"
    by (rule normalizeUrl_http)
  from p obtain path where pp: "protocol p = ''https:'' \<or> protocol p = ''http:''" "host_labels True (hostname p)"
    by (rule URL_model_parts)
  let ?h = "strip_www (hostname p)"
  have hs: "host_labels True ?h" using pp(2) by (rule host_strip_www)
  have re: "URL_model (normalizeUrl URL_model u) = Some \<lparr>protocol = protocol p, hostname = ?h, pathname = (if q = [] then ''/'' else q)\<rparr>"
    unfolding q(1) using pp(1) hs q(2,3) by (rule URL_model_reparse)
  have sw: "strip_www ?h = ?h" using nw by (simp add: strip_www_def)
  have sq: "strip_trailing_slashes (if q = [] then ''/'' else q) = q"
  proof (cases "q = []")
    case True
    then show ?thesis by (simp add: strip_trailing_slashes_def)
  next
    case False
    then show ?thesis using q(4) by (simp add: strip_id)
  qed
  have "normalizeUrl URL_model (normalizeUrl URL_model u) = strip_trailing_slashes ((protocol p @ ''//'' @ ?h) @ (if q = [] then ''/'' else q))"
    by (simp add: normalizeUrl_def[of _ "normalizeUrl URL_model u"] re sw)
  also have "\<dots> = protocol p @ ''//'' @ ?h @ q"
    using strip_host_path[OF hs, of "protocol p @ ''//''" "if q = [] then ''/'' else q"] sq by simp
  finally show ?thesis by (simp add: q(1))
qed

text \<open>
  Claim C5 (the code departs from it). \<open>normalizeUrl\<close> must be idempotent. The code removes
  \<open>www.\<close> with \<open>hostname.replace(/^www\\./, '')\<close>, which takes one prefix away: the URL
  \<open>https://www.www.example.com\<close> normalises to \<open>https://www.example.com\<close>, and normalising
  that gives \<open>https://example.com\<close>.
\<close>

theorem normalizeUrl_not_idempotent:
  "normalizeUrl URL_model ''https://www.www.example.com'' = ''https://www.example.com'' \<and>
   normalizeUrl URL_model (normalizeUrl URL_model ''https://www.www.example.com'') = ''https://example.com''"
  by (simp add: normalizeUrl_def URL_model_def split_scheme_def path_char_def lower_alpha_def
        upper_alpha_def ascii_digit_def strip_www_def strip_trailing_slashes_def)

section \<open>Properties of the deduplication engine\<close>

lemma fold_merges:
  "fold (\<lambda>group sum. sum + int (length (dg_items group)) - 1) groups a
     = a + (\<Sum>group\<leftarrow>groups. int (length (dg_items group)) - 1)"
  by (induction groups arbitrary: a) simp_all

text \<open>
  Claim C10. For every dataset and configuration, the result of \<open>analyzeDataset\<close> has
  \<open>estimatedReduction\<close> equal to \<open>potentialMerges\<close>, and both equal the sum, over all returned
  duplicate groups, of the number of group members minus one.
\<close>

theorem analyzeDataset_estimatedReduction:
  "estimatedReduction (analyzeDataset URL dataset config) = potentialMerges (analyzeDataset URL dataset config) \<and>
   potentialMerges (analyzeDataset URL dataset config) =
     (\<Sum>group\<leftarrow>duplicateGroups (analyzeDataset URL dataset config). int (length (dg_items group)) - 1)"
  by (simp add: analyzeDataset_def Let_def fold_merges)











section \<open>Properties of the merge engine\<close>

text \<open>
  Claim C8. For every merge invocation the returned result has \<open>success\<close> equal to
  \<open>errors.length == 0\<close>, \<open>mergedItems\<close> equal to the sum of the eight per-type merged counts
  and \<open>conflictsResolved\<close> equal to the sum of the eight per-type conflict counts. When the
  target profile's data is absent from the source map, the merge returns (it does not throw) a
  result with \<open>success = false\<close>, the error recorded and every per-type count zero, and the map
  is untouched.
\<close>

theorem mergeProfiles_result:
  "case mergeProfiles sourceData targetProfilePath config startTime endTime of
     (st, result) \<Rightarrow>
       success result = (length (errors result) = 0) \<and>
       mergedItems result =
         n_merged (d_bookmarks (details result)) + n_merged (d_history (details result)) +
         n_merged (d_logins (details result)) + n_merged (d_cookies (details result)) +
         n_merged (d_extensions (details result)) + n_merged (d_formHistory (details result)) +
         n_merged (d_permissions (details result)) + n_merged (d_sessions (details result)) \<and>
       conflictsResolved result =
         n_conflicts (d_bookmarks (details result)) + n_conflicts (d_history (details result)) +
         n_conflicts (d_logins (details result)) + n_conflicts (d_cookies (details result)) +
         n_conflicts (d_extensions (details result)) + n_conflicts (d_formHistory (details result)) +
         n_conflicts (d_permissions (details result)) + n_conflicts (d_sessions (details result)) \<and>
       (map_of sourceData targetProfilePath = None \<longrightarrow>
          \<not> success result \<and>
          errors result = [''Merge failed: Target profile data not found: '' @ targetProfilePath] \<and>
          details result =
            \<lparr>d_bookmarks = \<lparr>n_merged = 0, n_conflicts = 0\<rparr>,
             d_history = \<lparr>n_merged = 0, n_conflicts = 0\<rparr>,
             d_logins = \<lparr>n_merged = 0, n_conflicts = 0\<rparr>,
             d_cookies = \<lparr>n_merged = 0, n_conflicts = 0\<rparr>,
             d_extensions = \<lparr>n_merged = 0, n_conflicts = 0\<rparr>,
             d_formHistory = \<lparr>n_merged = 0, n_conflicts = 0\<rparr>,
             d_permissions = \<lparr>n_merged = 0, n_conflicts = 0\<rparr>,
             d_sessions = \<lparr>n_merged = 0, n_conflicts = 0\<rparr>\<rparr> \<and>
          mergedItems result = 0 \<and> conflictsResolved result = 0 \<and>
          st = sourceData)"
proof (cases "map_of sourceData targetProfilePath")
  case None
  then show ?thesis
    by (simp add: mergeProfiles_def initial_result_def zero_counts_def)
next
  case (Some targetData)
  obtain st result where l: "mergeTypes_loop (mergeTypes config) targetProfilePath config (sourceData, initial_result) = (st, result)"
    by (cases "mergeTypes_loop (mergeTypes config) targetProfilePath config (sourceData, initial_result)")
  show ?thesis
    by (simp add: mergeProfiles_def Some l details_values_def)
qed

text \<open>
  The theorem at two inputs: a target path that is not in the map, and the merge of two
  sources into an empty target.
\<close>

theorem mergeProfiles_result_witness:
  "map_of slash_sourceData ''/profiles/missing'' = None \<and>
   (case mergeProfiles slash_sourceData ''/profiles/missing'' (bookmarks_config False) 0 1 of
      (st, result) \<Rightarrow>
        \<not> success result \<and>
        errors result = [''Merge failed: Target profile data not found: /profiles/missing''] \<and>
        mergedItems result = 0 \<and> conflictsResolved result = 0 \<and> st = slash_sourceData) \<and>
   (case mergeProfiles shared_sourceData ''/profiles/target'' (bookmarks_config False) 0 1 of
      (st, result) \<Rightarrow>
        success result \<and> errors result = [] \<and>
        d_bookmarks (details result) = \<lparr>n_merged = 1, n_conflicts = 1\<rparr> \<and>
        mergedItems result = 1 \<and> conflictsResolved result = 1)"
proof (intro conjI)
  show h: "map_of slash_sourceData ''/profiles/missing'' = None"
    by (simp add: slash_sourceData_def)
  obtain st result where r: "mergeProfiles slash_sourceData ''/profiles/missing'' (bookmarks_config False) 0 1 = (st, result)"
    by (cases "mergeProfiles slash_sourceData ''/profiles/missing'' (bookmarks_config False) 0 1")
  from mergeProfiles_result[of slash_sourceData "''/profiles/missing''" "bookmarks_config False" 0 1] h r
  show "case mergeProfiles slash_sourceData ''/profiles/missing'' (bookmarks_config False) 0 1 of
      (st, result) \<Rightarrow>
        \<not> success result \<and>
        errors result = [''Merge failed: Target profile data not found: /profiles/missing''] \<and>
        mergedItems result = 0 \<and> conflictsResolved result = 0 \<and> st = slash_sourceData"
    by simp
  obtain st' result' where r': "mergeProfiles shared_sourceData ''/profiles/target'' (bookmarks_config False) 0 1 = (st', result')"
    by (cases "mergeProfiles shared_sourceData ''/profiles/target'' (bookmarks_config False) 0 1")
  have d: "details (snd (mergeProfiles shared_sourceData ''/profiles/target'' (bookmarks_config False) 0 1)) =
      \<lparr>d_bookmarks = \<lparr>n_merged = 1, n_conflicts = 1\<rparr>,
       d_history = \<lparr>n_merged = 0, n_conflicts = 0\<rparr>,
       d_logins = \<lparr>n_merged = 0, n_conflicts = 0\<rparr>,
       d_cookies = \<lparr>n_merged = 0, n_conflicts = 0\<rparr>,
       d_extensions = \<lparr>n_merged = 0, n_conflicts = 0\<rparr>,
       d_formHistory = \<lparr>n_merged = 0, n_conflicts = 0\<rparr>,
       d_permissions = \<lparr>n_merged = 0, n_conflicts = 0\<rparr>,
       d_sessions = \<lparr>n_merged = 0, n_conflicts = 0\<rparr>\<rparr>"
    and e: "errors (snd (mergeProfiles shared_sourceData ''/profiles/target'' (bookmarks_config False) 0 1)) = []"
    by code_simp+
  from mergeProfiles_result[of shared_sourceData "''/profiles/target''" "bookmarks_config False" 0 1] r' d e
  show "case mergeProfiles shared_sourceData ''/profiles/target'' (bookmarks_config False) 0 1 of
      (st, result) \<Rightarrow>
        success result \<and> errors result = [] \<and>
        d_bookmarks (details result) = \<lparr>n_merged = 1, n_conflicts = 1\<rparr> \<and>
        mergedItems result = 1 \<and> conflictsResolved result = 1"
    by simp
qed

subsection \<open>A dry run writes nothing\<close>

lemma store_put_same: "map_of st k = Some d \<Longrightarrow> store_put k d st = st"
  by (induction st) (auto split: if_splits)

lemma bookmark_step_dry: "dryRun config \<Longrightarrow> fst (bookmark_step config p b (td, m, c)) = td"
  by (auto simp: bookmark_step_def Let_def split: option.splits)

lemma history_step_dry: "dryRun config \<Longrightarrow> fst (history_step config p b (td, m, c)) = td"
  by (auto simp: history_step_def Let_def split: option.splits)

lemma login_step_dry: "dryRun config \<Longrightarrow> fst (login_step config p b (td, m, c)) = td"
  by (auto simp: login_step_def Let_def split: option.splits)

lemma bookmarks_loop_dry: "dryRun config \<Longrightarrow> fst (bookmarks_loop config target p i s) = fst s"
proof (induction config target p i s rule: bookmarks_loop.induct)
  case (1 config target profilePath i st merged conflicts)
  show ?case
  proof (cases "map_of st profilePath")
    case None then show ?thesis by (simp add: bookmarks_loop.simps)
  next
    case (Some data)
    note d = this
    show ?thesis
    proof (cases "map_of st target")
      case None then show ?thesis by (simp add: bookmarks_loop.simps d)
    next
      case (Some targetData)
      show ?thesis
      proof (cases "i < length (bookmarks data)")
        case False then show ?thesis by (simp add: bookmarks_loop.simps d Some)
      next
        case True
        obtain td' m' c' where s: "bookmark_step config profilePath (bookmarks data ! i) (targetData, merged, conflicts) = (td', m', c')"
          by (cases "bookmark_step config profilePath (bookmarks data ! i) (targetData, merged, conflicts)")
        have td: "td' = targetData" using bookmark_step_dry[OF "1.prems", of profilePath "bookmarks data ! i" targetData merged conflicts] s by simp
        have "fst (bookmarks_loop config target profilePath (i + 1) (store_put target td' st, m', c')) = store_put target td' st"
          using "1.IH"[OF d Some True s[symmetric] refl "1.prems"] by simp
        then show ?thesis
          by (subst bookmarks_loop.simps) (simp add: d Some True s td store_put_same)
      qed
    qed
  qed
qed

lemma history_loop_dry: "dryRun config \<Longrightarrow> fst (history_loop config target p i s) = fst s"
proof (induction config target p i s rule: history_loop.induct)
  case (1 config target profilePath i st merged conflicts)
  show ?case
  proof (cases "map_of st profilePath")
    case None then show ?thesis by (simp add: history_loop.simps)
  next
    case (Some data)
    note d = this
    show ?thesis
    proof (cases "map_of st target")
      case None then show ?thesis by (simp add: history_loop.simps d)
    next
      case (Some targetData)
      show ?thesis
      proof (cases "i < length (history data)")
        case False then show ?thesis by (simp add: history_loop.simps d Some)
      next
        case True
        obtain td' m' c' where s: "history_step config profilePath (history data ! i) (targetData, merged, conflicts) = (td', m', c')"
          by (cases "history_step config profilePath (history data ! i) (targetData, merged, conflicts)")
        have td: "td' = targetData" using history_step_dry[OF "1.prems", of profilePath "history data ! i" targetData merged conflicts] s by simp
        have "fst (history_loop config target profilePath (i + 1) (store_put target td' st, m', c')) = store_put target td' st"
          using "1.IH"[OF d Some True s[symmetric] refl "1.prems"] by simp
        then show ?thesis
          by (subst history_loop.simps) (simp add: d Some True s td store_put_same)
      qed
    qed
  qed
qed

lemma logins_loop_dry: "dryRun config \<Longrightarrow> fst (logins_loop config target p i s) = fst s"
proof (induction config target p i s rule: logins_loop.induct)
  case (1 config target profilePath i st merged conflicts)
  show ?case
  proof (cases "map_of st profilePath")
    case None then show ?thesis by (simp add: logins_loop.simps)
  next
    case (Some data)
    note d = this
    show ?thesis
    proof (cases "map_of st target")
      case None then show ?thesis by (simp add: logins_loop.simps d)
    next
      case (Some targetData)
      show ?thesis
      proof (cases "i < length (logins data)")
        case False then show ?thesis by (simp add: logins_loop.simps d Some)
      next
        case True
        obtain td' m' c' where s: "login_step config profilePath (logins data ! i) (targetData, merged, conflicts) = (td', m', c')"
          by (cases "login_step config profilePath (logins data ! i) (targetData, merged, conflicts)")
        have td: "td' = targetData" using login_step_dry[OF "1.prems", of profilePath "logins data ! i" targetData merged conflicts] s by simp
        have "fst (logins_loop config target profilePath (i + 1) (store_put target td' st, m', c')) = store_put target td' st"
          using "1.IH"[OF d Some True s[symmetric] refl "1.prems"] by simp
        then show ?thesis
          by (subst logins_loop.simps) (simp add: d Some True s td store_put_same)
      qed
    qed
  qed
qed


lemma mergeBookmarks_sources_dry:
  "dryRun config \<Longrightarrow> fst (mergeBookmarks_sources config target ps s) = fst s"
  by (induction config target ps s rule: mergeBookmarks_sources.induct)
     (auto simp: bookmarks_loop_dry split: option.splits)

lemma mergeHistory_sources_dry:
  "dryRun config \<Longrightarrow> fst (mergeHistory_sources config target ps s) = fst s"
  by (induction config target ps s rule: mergeHistory_sources.induct)
     (auto simp: history_loop_dry split: option.splits)

lemma mergeLogins_sources_dry:
  "dryRun config \<Longrightarrow> fst (mergeLogins_sources config target ps s) = fst s"
  by (induction config target ps s rule: mergeLogins_sources.induct)
     (auto simp: logins_loop_dry split: option.splits)

lemma mergeSpecificDataType_dry:
  assumes "dryRun config"
  shows "fst (mergeSpecificDataType dataType sourceData target config result) = sourceData"
proof -
  have b: "fst (mergeBookmarks sourceData target config result) = sourceData"
    using mergeBookmarks_sources_dry[OF assms, of target "map fst sourceData" "(sourceData, 0, 0)"]
    by (auto simp: mergeBookmarks_def split: prod.splits)
  have h: "fst (mergeHistory sourceData target config result) = sourceData"
    using mergeHistory_sources_dry[OF assms, of target "map fst sourceData" "(sourceData, 0, 0)"]
    by (auto simp: mergeHistory_def split: prod.splits)
  have l: "fst (mergeLogins sourceData target config result) = sourceData"
    using mergeLogins_sources_dry[OF assms, of target "map fst sourceData" "(sourceData, 0, 0)"]
    by (auto simp: mergeLogins_def split: prod.splits)
  show ?thesis
    by (cases dataType)
       (simp_all add: b h l mergeCookies_def mergeExtensions_def mergeFormHistory_def
          mergePermissions_def mergeSessions_def)
qed

lemma merge_each_dry:
  "dryRun config \<Longrightarrow> fst (merge_each ts target config s) = fst s"
proof (induction ts target config s rule: merge_each.induct)
  case (2 dataType rest target config sourceData result)
  then show ?case
    using mergeSpecificDataType_dry[of config dataType sourceData target result]
    by (cases "mergeSpecificDataType dataType sourceData target config result") simp
qed simp

lemma mergeTypes_loop_dry:
  "dryRun config \<Longrightarrow> fst (mergeTypes_loop ts target config s) = fst s"
proof (induction ts target config s rule: mergeTypes_loop.induct)
  case (2 dataType rest target config sourceData result)
  show ?case
  proof (cases "dataType = ALL'")
    case True
    then show ?thesis using merge_each_dry[OF "2.prems"] by (simp add: mergeAllDataTypes_def del: merge_each.simps)
  next
    case False
    then show ?thesis
      using 2 mergeSpecificDataType_dry[of config dataType sourceData target result]
      by (cases "mergeSpecificDataType dataType sourceData target config result") simp
  qed
qed simp

lemma mergeProfiles_dryRun_frame:
  "dryRun config \<Longrightarrow> fst (mergeProfiles sourceData targetProfilePath config startTime endTime) = sourceData"
  using mergeTypes_loop_dry[of config "mergeTypes config" targetProfilePath "(sourceData, initial_result)"]
  by (auto simp: mergeProfiles_def split: option.splits prod.splits)

text \<open>
  Whatever the inputs, a dry run returns the source map, and with it the target dataset,
  exactly as it received it.
\<close>

lemma mergeProfiles_dryRun_unchanged:
  "dryRun config \<Longrightarrow> fst (mergeProfiles sourceData targetProfilePath config startTime endTime) = sourceData"
  by (rule mergeProfiles_dryRun_frame)

text \<open>
  Claim C3 (the code departs from it). A dry run must return the same per-type counts as
  the real run on the same inputs. With an empty target and two source profiles that hold a
  bookmark of the same URL, the real run appends the first and finds the second in conflict
  with it (merged 1, conflicts 1), while the dry run, which never appends, finds no conflict
  (merged 2, conflicts 0).
\<close>

theorem dryRun_counts_differ:
  "d_bookmarks (details (snd (mergeProfiles shared_sourceData ''/profiles/target'' (bookmarks_config True) 0 1))) =
     \<lparr>n_merged = 2, n_conflicts = 0\<rparr> \<and>
   d_bookmarks (details (snd (mergeProfiles shared_sourceData ''/profiles/target'' (bookmarks_config False) 0 1))) =
     \<lparr>n_merged = 1, n_conflicts = 1\<rparr>"
  by code_simp

text \<open>
  Claim C1 (the code departs from it). After a completed merge that is not a dry run, no two
  bookmarks of the target may have the same normalised URL. The engine compares the URL
  strings as they are: with an empty target and one source holding \<open>https://example.com/\<close> and
  \<open>https://example.com\<close>, both are appended, and both normalise to \<open>https://example.com\<close>.
\<close>

theorem merge_keeps_normalized_duplicates:
  "map_option (\<lambda>targetData. map (\<lambda>b. normalizeUrl URL_model (bm_url b)) (bookmarks targetData))
     (map_of (fst (mergeProfiles slash_sourceData ''/profiles/target'' (bookmarks_config False) 0 1))
        ''/profiles/target'') =
   Some [''https://example.com'', ''https://example.com'']"
  by code_simp

subsection \<open>History entries with the same URL\<close>

lemma find_index_Some:
  "find_index p xs = Some i \<Longrightarrow> i < length xs \<and> p (xs ! i)"
  by (induction xs arbitrary: i) (auto split: if_splits)

text \<open>
  One step of the history loop, when the run is not a dry run and an entry of the target has
  the URL string of the incoming entry: the first such entry gets the sum of the two visit
  counts and, when the incoming last-visit time is later, that time; nothing else changes.
\<close>

lemma history_step_conflict:
  assumes "find_index (\<lambda>h. he_url h = he_url incoming) (history targetData) = Some index"
    and "\<not> dryRun config"
  shows "history_step config profilePath incoming (targetData, merged, conflicts) =
     (targetData\<lparr>history := (history targetData)
        [index := (history targetData ! index)
           \<lparr>he_visitCount := he_visitCount (history targetData ! index) + he_visitCount incoming,
            he_lastVisitTime :=
              (if date_gt (he_lastVisitTime incoming) (he_lastVisitTime (history targetData ! index))
               then he_lastVisitTime incoming else he_lastVisitTime (history targetData ! index))\<rparr>]\<rparr>,
      merged + 1, conflicts + 1)"
  using assms by (auto simp: history_step_def Let_def)

text \<open>
  Claim C4 (the code departs from it). When an incoming history entry shares its identity
  key with an entry of the target, the target's entry must end with the sum of the two visit
  counts and the later of the two last-visit times. Every per-type merge means to skip the
  target with \<open>profilePath === targetData.toString()\<close>, but \<open>toString()\<close> of the target dataset
  is the text \<open>[object Object]\<close>, never a path: the target, which is an entry of the source
  map, is merged into itself like any other source. In Scenario B (target: 3 visits, last at
  1000; source: 2 visits, last at 2000) the target's entry first meets itself (3 + 3) and then
  the incoming entry (6 + 2): it ends with 8 visits, not 5, and the engine reports two merged
  entries and two conflicts.
\<close>

theorem scenarioB_whole_merge:
  "map_option (\<lambda>targetData. map (\<lambda>h. (he_url h, he_visitCount h, he_lastVisitTime h)) (history targetData))
     (map_of (fst (mergeProfiles scenarioB_sourceData ''/profiles/target'' (history_config KEEP_NEWEST False) 0 1))
        ''/profiles/target'') = Some [(''https://a.com'', 8, Some 2000)] \<and>
   d_history (details (snd (mergeProfiles scenarioB_sourceData ''/profiles/target'' (history_config KEEP_NEWEST False) 0 1))) =
     \<lparr>n_merged = 2, n_conflicts = 2\<rparr>"
  by code_simp

text \<open>
  The look-up \<open>find(h => h.url === historyEntry.url)\<close> compares the URL strings as they are.
  With \<open>https://a.com/\<close> in the target and \<open>https://a.com\<close> in the source, which have the same
  normalised URL, the incoming entry is appended instead of being combined.
\<close>

lemma history_same_key_appended:
  "map_option (\<lambda>targetData. map (\<lambda>h. (he_url h, he_visitCount h)) (history targetData))
     (map_of (fst (mergeProfiles slashB_sourceData ''/profiles/target'' (history_config KEEP_NEWEST False) 0 1))
        ''/profiles/target'') = Some [(''https://a.com/'', 6), (''https://a.com'', 2)] \<and>
   normalizeUrl URL_model ''https://a.com/'' = normalizeUrl URL_model ''https://a.com''"
  by code_simp

section \<open>Properties of the normalizer and the extractor\<close>

lemmas eval_rows = or_text_def or_number_def truthy_text_def truthy_number_def new_Date_div_def
  new_Date_def parseInt_number_def parseInt_text_def parse_unsigned_def digit_value_def
  js_space_def ascii_digit_def lower_alpha_def upper_alpha_def enumerate_eq_zip

text \<open>
  Claim C2 (the code departs from it). Every Chrome-family timestamp must be converted by
  subtracting 11,644,473,600,000,000 microseconds before scaling to milliseconds; for the raw
  value 13,300,000,000,000,000 that is the Unix time 1,655,526,400,000 ms. Only the extractor's
  history and login rows are converted this way. The extractor's bookmark rows and all three
  Chrome functions of \<open>UniversalDataNormalizer\<close> divide the raw value by 1000 without subtracting,
  which gives 13,300,000,000,000 ms.
\<close>

theorem chrome_timestamps_without_epoch_offset:
  "spec_chrome_time_to_unix_ms 13300000000000000 = 1655526400000 \<and>
   map uh_lastVisit (normalizeChromeHistory SEARCH [chrome_history_example] profilePath browserType) =
     [Some 13300000000000] \<and>
   map uh_firstVisit (normalizeChromeHistory SEARCH [chrome_history_example] profilePath browserType) =
     [Some 13300000000000] \<and>
   map ub_dateAdded (normalizeChromeBookmarks [chrome_bookmark_example] profilePath browserType) =
     [Some 13300000000000] \<and>
   map ub_dateModified (normalizeChromeBookmarks [chrome_bookmark_example] profilePath browserType) =
     [Some (Some 13300000000000)] \<and>
   map ul_dateCreated (normalizeChromeLogins URL [chrome_login_example] profilePath browserType) =
     [Some 13300000000000] \<and>
   map ul_dateLastUsed (normalizeChromeLogins URL [chrome_login_example] profilePath browserType) =
     [Some 13300000000000] \<and>
   bm_dateAdded (extractChrome_bookmark profilePath chrome_json_example) = Some 13300000000000 \<and>
   bm_lastModified (extractChrome_bookmark profilePath chrome_json_example) = Some 13300000000000 \<and>
   he_lastVisitTime (extractChrome_history profilePath chrome_urls_example) = Some 1655526400000 \<and>
   lg_timeCreated (extractChrome_login profilePath chrome_logins_example) = Some 1655526400000 \<and>
   lg_timeLastUsed (extractChrome_login profilePath chrome_logins_example) = Some 1655526400000"
  by (simp add: spec_chrome_time_to_unix_ms_def normalizeChromeHistory_def normalizeChromeBookmarks_def
        normalizeChromeLogins_def extractChrome_bookmark_def extractChrome_history_def
        extractChrome_login_def chrome_history_example_def chrome_bookmark_example_def
        chrome_login_example_def chrome_json_example_def chrome_urls_example_def
        chrome_logins_example_def eval_rows)

subsection \<open>Defaults of missing fields\<close>

lemma map_enumerate_indep:
  "(\<And>i x. f (i, x) = g x) \<Longrightarrow> map f (enumerate n xs) = map g xs"
  by (induction xs arbitrary: n) simp_all

lemma normalizer_title_defaults:
  "map ub_title (normalizeFirefoxBookmarks now firefoxBookmarks profilePath) =
     map (\<lambda>row. case fb_title row of None \<Rightarrow> ''Untitled'' | Some t \<Rightarrow> if t = [] then ''Untitled'' else t) firefoxBookmarks"
  "map ub_title (normalizeChromeBookmarks chromeBookmarks profilePath browserType) =
     map (\<lambda>row. case cb_name row of None \<Rightarrow> ''Untitled'' | Some t \<Rightarrow> if t = [] then ''Untitled'' else t) chromeBookmarks"
  "map uh_title (normalizeFirefoxHistory SEARCH now firefoxHistory profilePath) =
     map (\<lambda>row. case fh_title row of None \<Rightarrow> ''Untitled'' | Some t \<Rightarrow> if t = [] then ''Untitled'' else t) firefoxHistory"
  "map uh_title (normalizeChromeHistory SEARCH chromeHistory profilePath browserType) =
     map (\<lambda>row. case ch_title row of None \<Rightarrow> ''Untitled'' | Some t \<Rightarrow> if t = [] then ''Untitled'' else t) chromeHistory"
  unfolding normalizeFirefoxBookmarks_def normalizeChromeBookmarks_def normalizeFirefoxHistory_def
    normalizeChromeHistory_def map_map
  by (rule map_enumerate_indep, simp add: or_text_def)+

lemma normalizer_visit_count_defaults:
  "map ub_visitCount (normalizeFirefoxBookmarks now firefoxBookmarks profilePath) =
     map (\<lambda>row. case fb_visit_count row of None \<Rightarrow> Some 0 | Some n \<Rightarrow> Some n) firefoxBookmarks"
  "map ub_visitCount (normalizeChromeBookmarks chromeBookmarks profilePath browserType) =
     map (\<lambda>row. Some 0) chromeBookmarks"
  "map uh_visitCount (normalizeFirefoxHistory SEARCH now firefoxHistory profilePath) =
     map (\<lambda>row. case fh_visit_count row of None \<Rightarrow> 1 | Some n \<Rightarrow> if n = 0 then 1 else n) firefoxHistory"
  "map uh_visitCount (normalizeChromeHistory SEARCH chromeHistory profilePath browserType) =
     map (\<lambda>row. case ch_visit_count row of None \<Rightarrow> 1 | Some n \<Rightarrow> if n = 0 then 1 else n) chromeHistory"
  unfolding normalizeFirefoxBookmarks_def normalizeChromeBookmarks_def normalizeFirefoxHistory_def
    normalizeChromeHistory_def map_map
  by (rule map_enumerate_indep, simp add: or_number_def split: option.splits)+

text \<open>
  Claim C9 (the code departs from it). A missing title normalises to \<open>Untitled\<close> in every
  function, and a missing visit count to 0 for bookmarks, as the two lemmas above state for
  all rows. For history entries a missing visit count must normalise to 0 as well, but both
  history functions write \<open>entry.visit_count || 1\<close>: a row without a visit count gets 1.
\<close>

theorem history_visit_count_defaults_to_one:
  "fh_visit_count bare_firefox_history = None \<and>
   map uh_visitCount (normalizeFirefoxHistory SEARCH now [bare_firefox_history] profilePath) = [1] \<and>
   ch_visit_count bare_chrome_history = None \<and>
   map uh_visitCount (normalizeChromeHistory SEARCH [bare_chrome_history] profilePath browserType) = [1]"
  by (simp add: normalizeFirefoxHistory_def normalizeChromeHistory_def bare_firefox_history_def
        bare_chrome_history_def or_number_def enumerate_eq_zip)

section \<open>Properties of the corruption handler\<close>

text \<open>
  Claim C7. For a database that the integrity check finds corrupted and recoverable,
  \<open>recoverDatabase\<close> calls the dump method first, and returns the dump's result, having called
  nothing else, whenever the dump recovers at least one table. The recover command is called
  only when the dump recovers no table. When the database is corrupted and not recoverable, or
  both methods recover no table, the result has \<open>success = false\<close> and \<open>lostData\<close> is the whole
  database.
\<close>

theorem recoverDatabase_order:
  "(isCorrupted (checkDatabaseIntegrity env filePath) \<and> recoverable (checkDatabaseIntegrity env filePath) \<longrightarrow>
      take 1 (snd (recoverDatabase env filePath outputDir)) = [M_dump] \<and>
      (recoveredTables (attemptDumpRecovery env filePath (outputDir @ ''/dump_recovery.sql'')) \<noteq> [] \<longrightarrow>
         recoverDatabase env filePath outputDir =
           (attemptDumpRecovery env filePath (outputDir @ ''/dump_recovery.sql''), [M_dump]))) \<and>
   (M_recover \<in> set (snd (recoverDatabase env filePath outputDir)) \<longrightarrow>
      recoveredTables (attemptDumpRecovery env filePath (outputDir @ ''/dump_recovery.sql'')) = []) \<and>
   (isCorrupted (checkDatabaseIntegrity env filePath) \<and>
    (\<not> recoverable (checkDatabaseIntegrity env filePath) \<or>
     recoveredTables (attemptDumpRecovery env filePath (outputDir @ ''/dump_recovery.sql'')) = [] \<and>
     recoveredTables (attemptRecoverCommand env filePath (outputDir @ ''/recover_recovery.db'')) = []) \<longrightarrow>
      \<not> rr_success (fst (recoverDatabase env filePath outputDir)) \<and>
      lostData (fst (recoverDatabase env filePath outputDir)) = [''entire_database''])"
proof -
  have d: "rr_success (attemptDumpRecovery env f p) \<longleftrightarrow> recoveredTables (attemptDumpRecovery env f p) \<noteq> []" for f p
    by (simp add: attemptDumpRecovery_def Let_def)
  have r: "rr_success (attemptRecoverCommand env f p) \<longleftrightarrow> recoveredTables (attemptRecoverCommand env f p) \<noteq> []" for f p
    by (simp add: attemptRecoverCommand_def Let_def)
  show ?thesis
    by (auto simp: recoverDatabase_def Let_def d r)
qed

lemmas eval_recovery = checkDatabaseIntegrity_def attemptDumpRecovery_def attemptRecoverCommand_def
  corruptionTypes_def Let_def

text \<open>
  The theorem at four runs: the dump recovers two tables; the dump recovers none and the
  recover command one; neither recovers a table; the file is empty.
\<close>

theorem recoverDatabase_order_witness:
  "isCorrupted (checkDatabaseIntegrity env_dump_succeeds ''/profiles/work/places.sqlite'') \<and>
   recoverable (checkDatabaseIntegrity env_dump_succeeds ''/profiles/work/places.sqlite'') \<and>
   recoveredTables (attemptDumpRecovery env_dump_succeeds ''/profiles/work/places.sqlite'' (''/recovery'' @ ''/dump_recovery.sql''))
     = [''moz_bookmarks'', ''moz_places''] \<and>
   recoverDatabase env_dump_succeeds ''/profiles/work/places.sqlite'' ''/recovery'' =
     (attemptDumpRecovery env_dump_succeeds ''/profiles/work/places.sqlite'' (''/recovery'' @ ''/dump_recovery.sql''), [M_dump]) \<and>
   M_recover \<in> set (snd (recoverDatabase env_recover_succeeds ''/profiles/work/places.sqlite'' ''/recovery'')) \<and>
   recoveredTables (attemptDumpRecovery env_recover_succeeds ''/profiles/work/places.sqlite'' (''/recovery'' @ ''/dump_recovery.sql'')) = [] \<and>
   isCorrupted (checkDatabaseIntegrity env_nothing_recovered ''/profiles/work/places.sqlite'') \<and>
   recoveredTables (attemptDumpRecovery env_nothing_recovered ''/profiles/work/places.sqlite'' (''/recovery'' @ ''/dump_recovery.sql'')) = [] \<and>
   recoveredTables (attemptRecoverCommand env_nothing_recovered ''/profiles/work/places.sqlite'' (''/recovery'' @ ''/recover_recovery.db'')) = [] \<and>
   \<not> rr_success (fst (recoverDatabase env_nothing_recovered ''/profiles/work/places.sqlite'' ''/recovery'')) \<and>
   lostData (fst (recoverDatabase env_nothing_recovered ''/profiles/work/places.sqlite'' ''/recovery'')) = [''entire_database''] \<and>
   isCorrupted (checkDatabaseIntegrity env_empty_file ''/profiles/work/places.sqlite'') \<and>
   \<not> recoverable (checkDatabaseIntegrity env_empty_file ''/profiles/work/places.sqlite'') \<and>
   \<not> rr_success (fst (recoverDatabase env_empty_file ''/profiles/work/places.sqlite'' ''/recovery'')) \<and>
   lostData (fst (recoverDatabase env_empty_file ''/profiles/work/places.sqlite'' ''/recovery'')) = [''entire_database'']"
proof -
  let ?f = "''/profiles/work/places.sqlite''" and ?o = "''/recovery''"
  note T = recoverDatabase_order
  have a: "isCorrupted (checkDatabaseIntegrity env_dump_succeeds ?f)"
    "recoverable (checkDatabaseIntegrity env_dump_succeeds ?f)"
    "recoveredTables (attemptDumpRecovery env_dump_succeeds ?f (?o @ ''/dump_recovery.sql'')) = [''moz_bookmarks'', ''moz_places'']"
    by (simp_all add: env_dump_succeeds_def eval_recovery)
  have a3: "recoveredTables (attemptDumpRecovery env_dump_succeeds ?f (?o @ ''/dump_recovery.sql'')) \<noteq> []"
    unfolding a(3) by simp
  have a': "recoverDatabase env_dump_succeeds ?f ?o =
      (attemptDumpRecovery env_dump_succeeds ?f (?o @ ''/dump_recovery.sql''), [M_dump])"
    by (rule T[of env_dump_succeeds ?f ?o, THEN conjunct1, rule_format, OF conjI[OF a(1) a(2)],
          THEN conjunct2, rule_format, OF a3])
  have b0: "snd (recoverDatabase env_recover_succeeds ?f ?o) = [M_dump, M_recover]"
    by (simp add: recoverDatabase_def env_recover_succeeds_def eval_recovery)
  then have b: "M_recover \<in> set (snd (recoverDatabase env_recover_succeeds ?f ?o))" by simp
  have b': "recoveredTables (attemptDumpRecovery env_recover_succeeds ?f (?o @ ''/dump_recovery.sql'')) = []"
    by (rule T[of env_recover_succeeds ?f ?o, THEN conjunct2, THEN conjunct1, rule_format, OF b])
  have c: "isCorrupted (checkDatabaseIntegrity env_nothing_recovered ?f)"
    "recoveredTables (attemptDumpRecovery env_nothing_recovered ?f (?o @ ''/dump_recovery.sql'')) = []"
    "recoveredTables (attemptRecoverCommand env_nothing_recovered ?f (?o @ ''/recover_recovery.db'')) = []"
    by (simp_all add: env_nothing_recovered_def eval_recovery)
  have c0: "\<not> rr_success (fst (recoverDatabase env_nothing_recovered ?f ?o)) \<and>
      lostData (fst (recoverDatabase env_nothing_recovered ?f ?o)) = [''entire_database'']"
    by (rule T[of env_nothing_recovered ?f ?o, THEN conjunct2, THEN conjunct2, rule_format,
          OF conjI[OF c(1) disjI2[OF conjI[OF c(2) c(3)]]]])
  note c' = c0[THEN conjunct1] c0[THEN conjunct2]
  have d: "isCorrupted (checkDatabaseIntegrity env_empty_file ?f)"
    "\<not> recoverable (checkDatabaseIntegrity env_empty_file ?f)"
    by (simp_all add: env_empty_file_def eval_recovery)
  have d0: "\<not> rr_success (fst (recoverDatabase env_empty_file ?f ?o)) \<and>
      lostData (fst (recoverDatabase env_empty_file ?f ?o)) = [''entire_database'']"
    by (rule T[of env_empty_file ?f ?o, THEN conjunct2, THEN conjunct2, rule_format,
          OF conjI[OF d(1) disjI1[OF d(2)]]])
  note d' = d0[THEN conjunct1] d0[THEN conjunct2]
  show ?thesis
    by (intro conjI) (fact a a' b b' c c' d d')+
qed

end
